theory Spec2Isabelle
  imports Complex_Main "HOL-Library.AList"
begin

section \<open>JSON values and the Python operations the module applies to them\<close>

text \<open>
  The module \<^verbatim>\<open>dataikuapi/dss/ml.py\<close> works on decoded JSON: nested Python
  dicts, lists, strings, numbers, booleans and \<^verbatim>\<open>None\<close>. A dict is an
  association list in the order the dict iterates; the keys of a decoded JSON object are
  strings, and no key occurs twice. Floats are kept as rationals (a decoded finite float
  is one); no function modelled here computes with them. A decoded document is a tree:
  no object is reachable under two places, so a write under one place changes nothing
  under another.

  The operations are those of Python 3, on which the module runs: a dict iterates in
  insertion order, and no value has the Python 2 method \<^verbatim>\<open>iteritems()\<close>.
\<close>

datatype json =
    JNull
  | JBool bool
  | JInt int
  | JFloat rat
  | JStr string
  | JList "json list"
  | JObj "(string \<times> json) list"

text \<open>The exceptions that the modelled code can raise, or that the transport surfaces.\<close>

datatype error =
    KeyError json
  | IndexError
  | TypeError
  | AttributeError
  | ValueError string
  | Exception string
  | DataikuException string

text \<open>An integer or a boolean is a valid list index; nothing else is.\<close>

fun py_index :: "json \<Rightarrow> int option" where
  "py_index (JInt i) = Some i"
| "py_index (JBool b) = Some (if b then 1 else 0)"
| "py_index _ = None"

definition py_position :: "int \<Rightarrow> nat \<Rightarrow> nat option" where
  "py_position i n =
     (let j = (if i < 0 then i + int n else i)
      in if 0 \<le> j \<and> j < int n then Some (nat j) else None)"

text \<open>\<^verbatim>\<open>obj[key]\<close>\<close>

fun py_getitem :: "json \<Rightarrow> json \<Rightarrow> error + json" where
  "py_getitem (JObj d) (JStr k) =
     (case map_of d k of Some v \<Rightarrow> Inr v | None \<Rightarrow> Inl (KeyError (JStr k)))"
| "py_getitem (JObj d) (JList xs) = Inl TypeError"
| "py_getitem (JObj d) (JObj e) = Inl TypeError"
| "py_getitem (JObj d) k = Inl (KeyError k)"
| "py_getitem (JList xs) k =
     (case py_index k of
        None \<Rightarrow> Inl TypeError
      | Some i \<Rightarrow>
          (case py_position i (length xs) of
             None \<Rightarrow> Inl IndexError
           | Some j \<Rightarrow> Inr (xs ! j)))"
| "py_getitem (JStr cs) k =
     (case py_index k of
        None \<Rightarrow> Inl TypeError
      | Some i \<Rightarrow>
          (case py_position i (length cs) of
             None \<Rightarrow> Inl IndexError
           | Some j \<Rightarrow> Inr (JStr [cs ! j])))"
| "py_getitem _ k = Inl TypeError"

text \<open>\<^verbatim>\<open>obj[key] = value\<close> with a string key; the container is returned updated.\<close>

fun py_setitem :: "json \<Rightarrow> string \<Rightarrow> json \<Rightarrow> error + json" where
  "py_setitem (JObj d) k v = Inr (JObj (AList.update k v d))"
| "py_setitem _ k v = Inl TypeError"

text \<open>\<^verbatim>\<open>del obj[key]\<close> with a string key.\<close>

fun py_delitem :: "json \<Rightarrow> string \<Rightarrow> error + json" where
  "py_delitem (JObj d) k =
     (if k \<in> set (map fst d) then Inr (JObj (AList.delete k d))
      else Inl (KeyError (JStr k)))"
| "py_delitem _ k = Inl TypeError"

text \<open>\<^verbatim>\<open>obj.get(key, default)\<close>: only a dict has the method.\<close>

fun py_get :: "json \<Rightarrow> string \<Rightarrow> json \<Rightarrow> error + json" where
  "py_get (JObj d) k dflt = Inr (case map_of d k of Some v \<Rightarrow> v | None \<Rightarrow> dflt)"
| "py_get _ k dflt = Inl AttributeError"

text \<open>\<^verbatim>\<open>obj.items()\<close>: only a dict has the method.\<close>

fun py_items :: "json \<Rightarrow> error + (string \<times> json) list" where
  "py_items (JObj d) = Inr d"
| "py_items _ = Inl AttributeError"

text \<open>
  \<^verbatim>\<open>obj.iteritems()\<close>: a method of Python 2 dicts. On Python 3 no decoded JSON
  value has it, a dict included, and the attribute lookup raises.
\<close>

definition py_iteritems :: "json \<Rightarrow> error + (string \<times> json) list" where
  "py_iteritems obj = Inl AttributeError"

fun is_substring :: "string \<Rightarrow> string \<Rightarrow> bool" where
  "is_substring p [] = (p = [])"
| "is_substring p (c # cs) = (take (length p) (c # cs) = p \<or> is_substring p cs)"

text \<open>
  \<^verbatim>\<open>key in obj\<close> for a string key: a key of a dict, an element of a list, a
  substring of a string.
\<close>

fun py_in :: "string \<Rightarrow> json \<Rightarrow> error + bool" where
  "py_in k (JObj d) = Inr (k \<in> set (map fst d))"
| "py_in k (JList xs) = Inr (JStr k \<in> set xs)"
| "py_in k (JStr cs) = Inr (is_substring k cs)"
| "py_in k _ = Inl TypeError"

text \<open>The values a \<^verbatim>\<open>for\<close> loop over the object visits.\<close>

fun py_iter :: "json \<Rightarrow> error + json list" where
  "py_iter (JObj d) = Inr (map (\<lambda>p. JStr (fst p)) d)"
| "py_iter (JList xs) = Inr xs"
| "py_iter (JStr cs) = Inr (map (\<lambda>c. JStr [c]) cs)"
| "py_iter _ = Inl TypeError"

text \<open>\<^verbatim>\<open>value == False\<close>: Python's \<^verbatim>\<open>False\<close> equals the numbers zero.\<close>

fun py_eq_False :: "json \<Rightarrow> bool" where
  "py_eq_False (JBool b) = (\<not> b)"
| "py_eq_False (JInt i) = (i = 0)"
| "py_eq_False (JFloat r) = (r = 0)"
| "py_eq_False _ = False"

text \<open>A Python string argument that may be \<^verbatim>\<open>None\<close>.\<close>

fun opt_str :: "string option \<Rightarrow> json" where
  "opt_str None = JNull"
| "opt_str (Some s) = JStr s"

text \<open>\<^verbatim>\<open>str.lower()\<close> on ASCII text.\<close>

definition lower_char :: "char \<Rightarrow> char" where
  "lower_char c =
     (case map_of (zip ''ABCDEFGHIJKLMNOPQRSTUVWXYZ'' ''abcdefghijklmnopqrstuvwxyz'') c of
        Some l \<Rightarrow> l
      | None \<Rightarrow> c)"

definition lower :: "string \<Rightarrow> string" where
  "lower s = map lower_char s"

subsection \<open>Objects reached through a chain of subscripts\<close>

text \<open>
  The settings are one mutable tree. A reference into it, such as
  \<^verbatim>\<open>sp = self.mltask_settings["splitParams"]\<close>, is the chain of subscripts that
  reaches the object; a write through the reference is a write at that place of the tree.
\<close>

fun load_at :: "json list \<Rightarrow> json \<Rightarrow> error + json" where
  "load_at [] obj = Inr obj"
| "load_at (k # ks) obj =
     (case py_getitem obj k of Inl e \<Rightarrow> Inl e | Inr child \<Rightarrow> load_at ks child)"

text \<open>The container \<open>obj\<close> after the object it holds under \<open>k\<close> has been mutated into \<open>c\<close>.\<close>

fun replace_child :: "json \<Rightarrow> json \<Rightarrow> json \<Rightarrow> json" where
  "replace_child (JObj d) (JStr k) c = JObj (AList.update k c d)"
| "replace_child (JList xs) k c =
     (case py_index k of
        None \<Rightarrow> JList xs
      | Some i \<Rightarrow>
          (case py_position i (length xs) of
             None \<Rightarrow> JList xs
           | Some j \<Rightarrow> JList (xs[j := c])))"
| "replace_child obj k c = obj"

text \<open>\<^verbatim>\<open>obj[k1]...[kn][key] = v\<close>\<close>

fun store_at :: "json list \<Rightarrow> string \<Rightarrow> json \<Rightarrow> json \<Rightarrow> error + json" where
  "store_at [] key v obj = py_setitem obj key v"
| "store_at (k # ks) key v obj =
     (case py_getitem obj k of
        Inl e \<Rightarrow> Inl e
      | Inr child \<Rightarrow>
          (case store_at ks key v child of
             Inl e \<Rightarrow> Inl e
           | Inr child' \<Rightarrow> Inr (replace_child obj k child')))"

subsection \<open>Statements\<close>

text \<open>
  A statement runs on the settings and either raises, leaving the settings as they are
  at that moment, or completes.
\<close>

type_synonym stmt = "json \<Rightarrow> error option \<times> json"

definition assign :: "json list \<Rightarrow> string \<Rightarrow> json \<Rightarrow> stmt" where
  "assign path key v s =
     (case store_at path key v s of Inl e \<Rightarrow> (Some e, s) | Inr s' \<Rightarrow> (None, s'))"

text \<open>Evaluating \<^verbatim>\<open>obj[k1]...[kn]\<close> for a reference to the object there.\<close>

definition evaluate :: "json list \<Rightarrow> stmt" where
  "evaluate path s = (case load_at path s of Inl e \<Rightarrow> (Some e, s) | Inr v \<Rightarrow> (None, s))"

definition raise_if :: "bool \<Rightarrow> error \<Rightarrow> stmt" where
  "raise_if c e s = (if c then (Some e, s) else (None, s))"

fun exec :: "stmt list \<Rightarrow> stmt" where
  "exec [] s = (None, s)"
| "exec (c # cs) s =
     (case c s of (Some e, s') \<Rightarrow> (Some e, s') | (None, s') \<Rightarrow> exec cs s')"

section \<open>Split parameters\<close>

text \<open>
  A selection or filter argument is a raw value (\<^verbatim>\<open>None\<close> is \<open>Plain JNull\<close>) or a
  builder object. The builder classes \<^verbatim>\<open>DSSDatasetSelectionBuilder\<close> and
  \<^verbatim>\<open>DSSFilterBuilder\<close> live in another module; their \<^verbatim>\<open>build()\<close> methods
  are the parameters \<open>build_selection\<close> and \<open>build_filter\<close>.
\<close>

datatype 'b arg = Plain json | Builder 'b

fun resolve :: "('b \<Rightarrow> json) \<Rightarrow> 'b arg \<Rightarrow> json" where
  "resolve build (Plain v) = v"
| "resolve build (Builder b) = build b"

text \<open>
  \<^verbatim>\<open>PredictionSplitParamsHandler.set_split_explicit\<close>. The locals \<^verbatim>\<open>sp\<close>,
  \<^verbatim>\<open>train_split\<close> and \<^verbatim>\<open>test_split\<close> are references: \<^verbatim>\<open>sp\<close> to the
  object under \<^verbatim>\<open>splitParams\<close>, the other two to the fresh dicts once they are
  stored in \<^verbatim>\<open>sp\<close>, so the later writes to them land inside the settings.
\<close>

definition set_split_explicit ::
  "('sb \<Rightarrow> json) \<Rightarrow> ('fb \<Rightarrow> json) \<Rightarrow> 'sb arg \<Rightarrow> 'sb arg \<Rightarrow> string option \<Rightarrow> string option \<Rightarrow>
   'fb arg \<Rightarrow> 'fb arg \<Rightarrow> stmt" where
  "set_split_explicit build_selection build_filter train_selection test_selection
      dataset_name test_dataset_name train_filter test_filter =
     (let sp = [JStr ''splitParams''];
          single = (test_dataset_name = None \<or> test_dataset_name = dataset_name);
          train_split = sp @ [JStr (if single then ''efsdTrain'' else ''eftdTrain'')];
          test_split = sp @ [JStr (if single then ''efsdTest'' else ''eftdTest'')]
      in exec
          ([evaluate sp,
            raise_if (dataset_name = None)
              (Exception ''For explicit splitting a dataset_name is mandatory'')] @
           (if single then
              [assign sp ''ttPolicy'' (JStr ''EXPLICIT_FILTERING_SINGLE_DATASET''),
               assign sp ''efsdDatasetSmartName'' (opt_str dataset_name),
               assign sp ''efsdTrain'' (JObj []),
               assign sp ''efsdTest'' (JObj [])]
            else
              [assign sp ''ttPolicy'' (JStr ''EXPLICIT_FILTERING_TWO_DATASETS''),
               assign sp ''eftdTrain'' (JObj [(''datasetSmartName'', opt_str dataset_name)]),
               assign sp ''eftdTest'' (JObj [(''datasetSmartName'', opt_str test_dataset_name)])]) @
           (if train_selection \<noteq> Plain JNull
            then [assign train_split ''selection'' (resolve build_selection train_selection)]
            else []) @
           (if test_selection \<noteq> Plain JNull
            then [assign test_split ''selection'' (resolve build_selection test_selection)]
            else []) @
           (if train_filter \<noteq> Plain JNull
            then [assign train_split ''filter'' (resolve build_filter train_filter)]
            else []) @
           (if test_filter \<noteq> Plain JNull
            then [assign test_split ''filter'' (resolve build_filter test_filter)]
            else [])))"

text \<open>
  The two key shapes of an explicit split, as the specification names them: the keys of
  the single-dataset shape and the keys of the two-dataset shape, looked for in
  \<^verbatim>\<open>splitParams\<close>.
\<close>

definition has_keys :: "string list \<Rightarrow> json list \<Rightarrow> json \<Rightarrow> bool" where
  "has_keys ks path s =
     (case load_at path s of
        Inl e \<Rightarrow> False
      | Inr obj \<Rightarrow> list_all (\<lambda>k. py_in k obj = Inr True) ks)"

definition single_dataset_shape :: "json \<Rightarrow> bool" where
  "single_dataset_shape s =
     has_keys [''efsdDatasetSmartName'', ''efsdTrain'', ''efsdTest''] [JStr ''splitParams''] s"

definition two_datasets_shape :: "json \<Rightarrow> bool" where
  "two_datasets_shape s = has_keys [''eftdTrain'', ''eftdTest''] [JStr ''splitParams''] s"

text \<open>
  The record the specification describes for one side of the split: the base entries,
  then the selection and the filter when they are given.
\<close>

definition split_record ::
  "(string \<times> json) list \<Rightarrow> ('sb \<Rightarrow> json) \<Rightarrow> 'sb arg \<Rightarrow> ('fb \<Rightarrow> json) \<Rightarrow> 'fb arg \<Rightarrow> json" where
  "split_record base build_selection selection build_filter filter_arg =
     JObj (base @
           (if selection = Plain JNull then []
            else [(''selection'', resolve build_selection selection)]) @
           (if filter_arg = Plain JNull then []
            else [(''filter'', resolve build_filter filter_arg)]))"

section \<open>ML task settings\<close>

text \<open>
  \<^verbatim>\<open>DSSMLTaskSettings.foreach_feature\<close>. The transform \<open>fn\<close> receives a deep copy
  of the feature's params, so it cannot reach the settings; it is a function of the name
  and the params.
\<close>

fun foreach_feature_loop ::
  "(string \<Rightarrow> json \<Rightarrow> json) \<Rightarrow> string option \<Rightarrow> (string \<times> json) list \<Rightarrow>
   (string \<times> json) list \<Rightarrow> error + (string \<times> json) list" where
  "foreach_feature_loop fn only_of_type [] new_per_feature = Inr new_per_feature"
| "foreach_feature_loop fn only_of_type ((k, v) # rest) new_per_feature =
     (case py_getitem v (JStr ''role'') of
        Inl e \<Rightarrow> Inl e
      | Inr role \<Rightarrow>
          if role = JStr ''TARGET'' then foreach_feature_loop fn only_of_type rest new_per_feature
          else
            (case only_of_type of
               None \<Rightarrow>
                 foreach_feature_loop fn only_of_type rest (AList.update k (fn k v) new_per_feature)
             | Some t \<Rightarrow>
                 (case py_getitem v (JStr ''type'') of
                    Inl e \<Rightarrow> Inl e
                  | Inr ty \<Rightarrow>
                      if ty \<noteq> JStr t
                      then foreach_feature_loop fn only_of_type rest new_per_feature
                      else foreach_feature_loop fn only_of_type rest
                             (AList.update k (fn k v) new_per_feature))))"

definition foreach_feature :: "(string \<Rightarrow> json \<Rightarrow> json) \<Rightarrow> string option \<Rightarrow> stmt" where
  "foreach_feature fn only_of_type s =
     (case load_at [JStr ''preprocessing'', JStr ''per_feature''] s of
        Inl e \<Rightarrow> (Some e, s)
      | Inr per_feature \<Rightarrow>
          (case py_items per_feature of
             Inl e \<Rightarrow> (Some e, s)
           | Inr items \<Rightarrow>
               (case foreach_feature_loop fn only_of_type items [] of
                  Inl e \<Rightarrow> (Some e, s)
                | Inr new_per_feature \<Rightarrow>
                    assign [JStr ''preprocessing''] ''per_feature'' (JObj new_per_feature) s)))"

text \<open>\<^verbatim>\<open>DSSMLTaskSettings.remove_sample_weighting\<close>: the body of its loop, then the method.\<close>

definition reset_weight_role :: "json \<Rightarrow> stmt" where
  "reset_weight_role feature_name s =
     (case load_at [JStr ''preprocessing'', JStr ''per_feature'', feature_name, JStr ''role''] s of
        Inl e \<Rightarrow> (Some e, s)
      | Inr role \<Rightarrow>
          if role = JStr ''WEIGHT''
          then assign [JStr ''preprocessing'', JStr ''per_feature'', feature_name] ''role''
                 (JStr ''INPUT'') s
          else (None, s))"

definition for_each_in :: "json list \<Rightarrow> (json \<Rightarrow> stmt) \<Rightarrow> stmt" where
  "for_each_in path body s =
     (case load_at path s of
        Inl e \<Rightarrow> (Some e, s)
      | Inr obj \<Rightarrow>
          (case py_iter obj of
             Inl e \<Rightarrow> (Some e, s)
           | Inr xs \<Rightarrow> exec (map body xs) s))"

definition remove_sample_weighting :: stmt where
  "remove_sample_weighting =
     exec
      [assign [JStr ''weight''] ''weightMethod'' (JStr ''NO_WEIGHTING''),
       for_each_in [JStr ''preprocessing'', JStr ''per_feature''] reset_weight_role]"

text \<open>\<^verbatim>\<open>DSSMLTaskSettings.use_sample_weighting\<close>\<close>

definition raise_unless_in :: "string \<Rightarrow> json list \<Rightarrow> error \<Rightarrow> stmt" where
  "raise_unless_in k path err s =
     (case load_at path s of
        Inl e \<Rightarrow> (Some e, s)
      | Inr obj \<Rightarrow>
          (case py_in k obj of
             Inl e \<Rightarrow> (Some e, s)
           | Inr present \<Rightarrow> if \<not> present then (Some err, s) else (None, s)))"

definition use_sample_weighting :: "string \<Rightarrow> stmt" where
  "use_sample_weighting feature_name =
     exec
      [remove_sample_weighting,
       raise_unless_in feature_name [JStr ''preprocessing'', JStr ''per_feature'']
         (ValueError (''Feature '' @ feature_name @
                      '' doesn't exist in this ML task, can't use as weight'')),
       assign [JStr ''weight''] ''weightMethod'' (JStr ''SAMPLE_WEIGHT''),
       assign [JStr ''weight''] ''sampleWeightVariable'' (JStr feature_name),
       assign [JStr ''preprocessing'', JStr ''per_feature'', JStr feature_name] ''role''
         (JStr ''WEIGHT'')]"

text \<open>
  The reset step in the specification's words: the weight method becomes
  \<^verbatim>\<open>NO_WEIGHTING\<close>, every feature whose role is \<^verbatim>\<open>WEIGHT\<close> gets the role
  \<^verbatim>\<open>INPUT\<close>, and nothing else changes.
\<close>

fun demote_weight :: "json \<Rightarrow> json" where
  "demote_weight (JObj params) =
     (if map_of params ''role'' = Some (JStr ''WEIGHT'')
      then JObj (AList.update ''role'' (JStr ''INPUT'') params)
      else JObj params)"
| "demote_weight v = v"

definition reset_step_spec ::
  "(string \<times> json) list \<Rightarrow> (string \<times> json) list \<Rightarrow> (string \<times> json) list \<Rightarrow>
   (string \<times> json) list \<Rightarrow> json" where
  "reset_step_spec settings weight preprocessing per_feature =
     JObj (AList.update ''preprocessing''
             (JObj (AList.update ''per_feature''
                      (JObj (map (\<lambda>(k, v). (k, demote_weight v)) per_feature)) preprocessing))
             (AList.update ''weight''
                (JObj (AList.update ''weightMethod'' (JStr ''NO_WEIGHTING'') weight)) settings))"

text \<open>
  The algorithm name remap tables of the two settings classes, and
  \<^verbatim>\<open>get_algorithm_settings\<close>, which returns a reference into the settings.
\<close>

datatype settings_class = DSSPredictionMLTaskSettings | DSSClusteringMLTaskSettings

fun algorithm_remap :: "settings_class \<Rightarrow> (string \<times> string) list" where
  "algorithm_remap DSSPredictionMLTaskSettings =
     [(''SVC_CLASSIFICATION'', ''svc_classifier''),
      (''SGD_CLASSIFICATION'', ''sgd_classifier''),
      (''SPARKLING_DEEP_LEARNING'', ''deep_learning_sparkling''),
      (''SPARKLING_GBM'', ''gbm_sparkling''),
      (''SPARKLING_RF'', ''rf_sparkling''),
      (''SPARKLING_GLM'', ''glm_sparkling''),
      (''SPARKLING_NB'', ''nb_sparkling''),
      (''XGBOOST_CLASSIFICATION'', ''xgboost''),
      (''XGBOOST_REGRESSION'', ''xgboost''),
      (''MLLIB_LOGISTIC_REGRESSION'', ''mllib_logit''),
      (''MLLIB_LINEAR_REGRESSION'', ''mllib_linreg''),
      (''MLLIB_RANDOM_FOREST'', ''mllib_rf'')]"
| "algorithm_remap DSSClusteringMLTaskSettings =
     [(''DBSCAN'', ''db_scan_clustering'')]"

definition algorithm_ref :: "settings_class \<Rightarrow> string \<Rightarrow> json list" where
  "algorithm_ref cls algorithm_name =
     (let algorithm_name =
            (case map_of (algorithm_remap cls) algorithm_name of
               Some remapped \<Rightarrow> remapped
             | None \<Rightarrow> algorithm_name)
      in [JStr ''modeling'', JStr (lower algorithm_name)])"

definition get_algorithm_settings :: "settings_class \<Rightarrow> string \<Rightarrow> json \<Rightarrow> error + json" where
  "get_algorithm_settings cls algorithm_name s = load_at (algorithm_ref cls algorithm_name) s"

definition set_algorithm_enabled :: "settings_class \<Rightarrow> string \<Rightarrow> json \<Rightarrow> stmt" where
  "set_algorithm_enabled cls algorithm_name enabled =
     assign (algorithm_ref cls algorithm_name) ''enabled'' enabled"

text \<open>\<^verbatim>\<open>DSSMLTaskSettings.set_metric\<close>\<close>

definition set_metric :: "string option \<Rightarrow> string option \<Rightarrow> bool \<Rightarrow> bool \<Rightarrow> stmt" where
  "set_metric metric custom_metric custom_metric_greater_is_better custom_metric_use_probas =
     exec
      [raise_if (custom_metric = None \<and> metric = None)
         (ValueError ''Either metric or custom_metric must be defined''),
       assign [JStr ''modeling'', JStr ''metrics''] ''evaluationMetric''
         (if custom_metric = None then opt_str metric else JStr ''CUSTOM''),
       assign [JStr ''modeling'', JStr ''metrics''] ''customEvaluationMetricCode''
         (opt_str custom_metric),
       assign [JStr ''modeling'', JStr ''metrics''] ''customEvaluationMetricGIB''
         (JBool custom_metric_greater_is_better),
       assign [JStr ''modeling'', JStr ''metrics''] ''customEvaluationMetricNeedsProba''
         (JBool custom_metric_use_probas)]"

section \<open>Trained-model details\<close>

text \<open>
  \<^verbatim>\<open>DSSTrainedPredictionModelDetails.get_roc_curve_data\<close>, on the wrapper's
  \<^verbatim>\<open>details\<close>.
\<close>

definition get_roc_curve_data :: "json \<Rightarrow> error + json" where
  "get_roc_curve_data details =
     (case py_get details ''perf'' (JObj []) of
        Inl e \<Rightarrow> Inl e
      | Inr perf \<Rightarrow>
          (case py_get perf ''rocVizData'' (JObj []) of
             Inl e \<Rightarrow> Inl e
           | Inr roc \<Rightarrow>
               if roc = JNull
               then Inl (ValueError ''This model does not have ROC visualization data'')
               else Inr roc))"

subsection \<open>Performance metrics: a copy is stripped, not the snippet\<close>

text \<open>
  Whether \<^verbatim>\<open>get_performance_metrics\<close> changes the wrapper depends on which object
  the deletions hit, so the objects live in a store: a list of objects, an object's
  address being its position. \<^verbatim>\<open>self.snippet\<close> is an address.
  \<^verbatim>\<open>copy.deepcopy\<close> allocates a new object with the same contents and returns its
  address.
\<close>

type_synonym heap = "json list"

definition deepcopy :: "nat \<Rightarrow> heap \<Rightarrow> nat \<times> heap" where
  "deepcopy a h = (length h, h @ [h ! a])"

text \<open>\<^verbatim>\<open>for x in keys: if x in clean_snippet: del clean_snippet[x]\<close>\<close>

fun strip_keys :: "string list \<Rightarrow> nat \<Rightarrow> heap \<Rightarrow> error option \<times> heap" where
  "strip_keys [] clean_snippet h = (None, h)"
| "strip_keys (x # xs) clean_snippet h =
     (case py_in x (h ! clean_snippet) of
        Inl e \<Rightarrow> (Some e, h)
      | Inr present \<Rightarrow>
          if present then
            (case py_delitem (h ! clean_snippet) x of
               Inl e \<Rightarrow> (Some e, h)
             | Inr obj \<Rightarrow> strip_keys xs clean_snippet (h[clean_snippet := obj]))
          else strip_keys xs clean_snippet h)"

definition performance_metrics :: "string list \<Rightarrow> nat \<Rightarrow> heap \<Rightarrow> (error + nat) \<times> heap" where
  "performance_metrics keys self_snippet h =
     (let (clean_snippet, h1) = deepcopy self_snippet h
      in case strip_keys keys clean_snippet h1 of
           (Some e, h2) \<Rightarrow> (Inl e, h2)
         | (None, h2) \<Rightarrow> (Inr clean_snippet, h2))"

text \<open>\<^verbatim>\<open>DSSTrainedPredictionModelDetails.get_performance_metrics\<close>\<close>

definition prediction_bookkeeping_keys :: "string list" where
  "prediction_bookkeeping_keys =
     [''gridsearchData'', ''trainDate'', ''topImportance'', ''backendType'', ''userMeta'',
      ''sessionDate'', ''trainInfo'', ''fullModelId'', ''gridLength'', ''algorithm'',
      ''sessionId'']"

definition prediction_get_performance_metrics :: "nat \<Rightarrow> heap \<Rightarrow> (error + nat) \<times> heap" where
  "prediction_get_performance_metrics = performance_metrics prediction_bookkeeping_keys"

text \<open>\<^verbatim>\<open>DSSTrainedClusteringModelDetails.get_performance_metrics\<close>\<close>

definition clustering_bookkeeping_keys :: "string list" where
  "clustering_bookkeeping_keys =
     [''fullModelId'', ''algorithm'', ''trainInfo'', ''userMeta'', ''backendType'',
      ''sessionId'', ''sessionDate'', ''facts'']"

definition clustering_get_performance_metrics :: "nat \<Rightarrow> heap \<Rightarrow> (error + nat) \<times> heap" where
  "clustering_get_performance_metrics = performance_metrics clustering_bookkeeping_keys"

section \<open>The ML task handle\<close>

text \<open>
  The HTTP client is another module. A request carries a method, a URL and an optional
  JSON body; the client's answer (a decoded body, or the exception it raises) may depend
  on everything that happened before, so it is a function of the history of requests and
  sleeps. Sleeps are in milliseconds.
\<close>

datatype request = Request string string "json option"

datatype event = Sent request | Slept nat

type_synonym client = "event list \<Rightarrow> request \<Rightarrow> error + json"

definition perform_json :: "client \<Rightarrow> request \<Rightarrow> event list \<Rightarrow> (error + json) \<times> event list" where
  "perform_json c req hist = (c hist req, hist @ [Sent req])"

definition sleep :: "nat \<Rightarrow> event list \<Rightarrow> event list" where
  "sleep ms hist = hist @ [Slept ms]"

record mltask =
  project_key :: string
  analysis_id :: string
  mltask_id :: string

definition lab_url :: "mltask \<Rightarrow> string \<Rightarrow> string" where
  "lab_url t rest =
     ''/projects/'' @ project_key t @ ''/models/lab/'' @ analysis_id t @ ''/'' @ mltask_id t @ rest"

definition status_request :: "mltask \<Rightarrow> request" where
  "status_request t = Request ''GET'' (lab_url t ''/status'') None"

definition get_status :: "client \<Rightarrow> mltask \<Rightarrow> event list \<Rightarrow> (error + json) \<times> event list" where
  "get_status c t hist = perform_json c (status_request t) hist"

text \<open>
  The two polling loops. A loop that never ends has the value \<open>None\<close>; one that ends
  gives what it raised or returned, and the history.
\<close>

partial_function (option) wait_guess_complete ::
  "client \<Rightarrow> mltask \<Rightarrow> event list \<Rightarrow> ((error + unit) \<times> event list) option" where
  "wait_guess_complete c t hist =
     (case get_status c t hist of
        (Inl e, hist1) \<Rightarrow> Some (Inl e, hist1)
      | (Inr status, hist1) \<Rightarrow>
          (case py_get status ''guessing'' (JStr ''???'') of
             Inl e \<Rightarrow> Some (Inl e, hist1)
           | Inr v \<Rightarrow>
               if py_eq_False v then Some (Inr (), hist1)
               else wait_guess_complete c t (sleep 200 hist1)))"

partial_function (option) wait_train_complete ::
  "client \<Rightarrow> mltask \<Rightarrow> event list \<Rightarrow> ((error + unit) \<times> event list) option" where
  "wait_train_complete c t hist =
     (case get_status c t hist of
        (Inl e, hist1) \<Rightarrow> Some (Inl e, hist1)
      | (Inr status, hist1) \<Rightarrow>
          (case py_get status ''training'' (JStr ''???'') of
             Inl e \<Rightarrow> Some (Inl e, hist1)
           | Inr v \<Rightarrow>
               if py_eq_False v then Some (Inr (), hist1)
               else wait_train_complete c t (sleep 2000 hist1)))"

text \<open>The history of \<open>n\<close> rounds of a polling loop that did not end: a fetch, then a sleep.\<close>

definition rounds :: "request \<Rightarrow> nat \<Rightarrow> nat \<Rightarrow> event list" where
  "rounds req ms n = concat (replicate n [Sent req, Slept ms])"

text \<open>\<^verbatim>\<open>DSSMLTask.get_trained_model_snippet\<close>\<close>

definition snippets_request :: "mltask \<Rightarrow> json \<Rightarrow> request" where
  "snippets_request t obj = Request ''GET'' (lab_url t ''/models-snippets'') (Some obj)"

definition get_trained_model_snippet ::
  "client \<Rightarrow> mltask \<Rightarrow> string option \<Rightarrow> json option \<Rightarrow> event list \<Rightarrow>
   (error + json) \<times> event list" where
  "get_trained_model_snippet c t model_id ids hist =
     (let obj =
            (case model_id of
               Some i \<Rightarrow> JObj [(''modelsIds'', JList [JStr i])]
             | None \<Rightarrow>
                 (case ids of
                    Some l \<Rightarrow> JObj [(''modelsIds'', l)]
                  | None \<Rightarrow> JObj []))
      in case perform_json c (snippets_request t obj) hist of
           (Inl e, hist1) \<Rightarrow> (Inl e, hist1)
         | (Inr ret, hist1) \<Rightarrow>
             (case model_id of
                Some i \<Rightarrow> (py_getitem ret (JStr i), hist1)
              | None \<Rightarrow> (Inr ret, hist1)))"

text \<open>List comprehensions whose condition or element may raise.\<close>

fun filter_raising :: "('a \<Rightarrow> error + bool) \<Rightarrow> 'a list \<Rightarrow> error + 'a list" where
  "filter_raising p [] = Inr []"
| "filter_raising p (x # xs) =
     (case p x of
        Inl e \<Rightarrow> Inl e
      | Inr keep \<Rightarrow>
          (case filter_raising p xs of
             Inl e \<Rightarrow> Inl e
           | Inr ys \<Rightarrow> Inr (if keep then x # ys else ys)))"

fun map_raising :: "('a \<Rightarrow> error + 'b) \<Rightarrow> 'a list \<Rightarrow> error + 'b list" where
  "map_raising f [] = Inr []"
| "map_raising f (x # xs) =
     (case f x of
        Inl e \<Rightarrow> Inl e
      | Inr y \<Rightarrow> (case map_raising f xs of Inl e \<Rightarrow> Inl e | Inr ys \<Rightarrow> Inr (y # ys)))"

text \<open>\<^verbatim>\<open>fmi.get('fullModelId', {}).get('sessionId', '') == session_id\<close>\<close>

definition in_session :: "string \<Rightarrow> json \<Rightarrow> error + bool" where
  "in_session session_id fmi =
     (case py_get fmi ''fullModelId'' (JObj []) of
        Inl e \<Rightarrow> Inl e
      | Inr full \<Rightarrow>
          (case py_get full ''sessionId'' (JStr []) of
             Inl e \<Rightarrow> Inl e
           | Inr sid \<Rightarrow> Inr (sid = JStr session_id)))"

text \<open>\<^verbatim>\<open>s.get("algorithm", "") == algorithm\<close>, on an item of the snippets.\<close>

definition has_algorithm :: "string \<Rightarrow> string \<times> json \<Rightarrow> error + bool" where
  "has_algorithm algorithm item =
     (case py_get (snd item) ''algorithm'' (JStr []) of
        Inl e \<Rightarrow> Inl e
      | Inr a \<Rightarrow> Inr (a = JStr algorithm))"

text \<open>
  \<^verbatim>\<open>DSSMLTask.get_trained_models_ids\<close>. With an algorithm, the snippets are
  fetched and then walked with \<^verbatim>\<open>iteritems()\<close>.
\<close>

definition get_trained_models_ids ::
  "client \<Rightarrow> mltask \<Rightarrow> string option \<Rightarrow> string option \<Rightarrow> event list \<Rightarrow>
   (error + json list) \<times> event list" where
  "get_trained_models_ids c t session_id algorithm hist =
     (case get_status c t hist of
        (Inl e, hist1) \<Rightarrow> (Inl e, hist1)
      | (Inr status, hist1) \<Rightarrow>
          (case py_getitem status (JStr ''fullModelIds'') of
             Inl e \<Rightarrow> (Inl e, hist1)
           | Inr full_model_ids \<Rightarrow>
               (case (case session_id of
                        None \<Rightarrow> Inr full_model_ids
                      | Some sid \<Rightarrow>
                          (case py_iter full_model_ids of
                             Inl e \<Rightarrow> Inl e
                           | Inr fmis \<Rightarrow>
                               (case filter_raising (in_session sid) fmis of
                                  Inl e \<Rightarrow> Inl e
                                | Inr kept \<Rightarrow> Inr (JList kept)))) of
                  Inl e \<Rightarrow> (Inl e, hist1)
                | Inr full_model_ids \<Rightarrow>
                    (case py_iter full_model_ids of
                       Inl e \<Rightarrow> (Inl e, hist1)
                     | Inr fmis \<Rightarrow>
                         (case map_raising (\<lambda>x. py_getitem x (JStr ''id'')) fmis of
                            Inl e \<Rightarrow> (Inl e, hist1)
                          | Inr model_ids \<Rightarrow>
                              (case algorithm of
                                 None \<Rightarrow> (Inr model_ids, hist1)
                               | Some a \<Rightarrow>
                                   (case get_trained_model_snippet c t None
                                           (Some (JList model_ids)) hist1 of
                                      (Inl e, hist2) \<Rightarrow> (Inl e, hist2)
                                    | (Inr snippets, hist2) \<Rightarrow>
                                        (case py_iteritems snippets of
                                           Inl e \<Rightarrow> (Inl e, hist2)
                                         | Inr items \<Rightarrow>
                                             (case filter_raising (has_algorithm a) items of
                                                Inl e \<Rightarrow> (Inl e, hist2)
                                              | Inr kept \<Rightarrow>
                                                  (Inr (map (\<lambda>item. JStr (fst item)) kept),
                                                   hist2))))))))))"

text \<open>
  The two detail wrappers. Both constructors take the details, the snippet, the saved
  model and its version (absent when the model comes from an ML task), the task and the
  model's id in the task.
\<close>

datatype trained_model_details =
    DSSTrainedPredictionModelDetails json json "string option" "string option"
      "mltask option" "string option"
  | DSSTrainedClusteringModelDetails json json "string option" "string option"
      "mltask option" "string option"

text \<open>\<^verbatim>\<open>DSSMLTask.get_trained_model_details\<close>\<close>

definition details_request :: "mltask \<Rightarrow> string \<Rightarrow> request" where
  "details_request t model_id =
     Request ''GET'' (lab_url t (''/models/'' @ model_id @ ''/details'')) None"

definition get_trained_model_details ::
  "client \<Rightarrow> mltask \<Rightarrow> string \<Rightarrow> event list \<Rightarrow> (error + trained_model_details) \<times> event list" where
  "get_trained_model_details c t model_id hist =
     (case perform_json c (details_request t model_id) hist of
        (Inl e, hist1) \<Rightarrow> (Inl e, hist1)
      | (Inr ret, hist1) \<Rightarrow>
          (case get_trained_model_snippet c t (Some model_id) None hist1 of
             (Inl e, hist2) \<Rightarrow> (Inl e, hist2)
           | (Inr snippet, hist2) \<Rightarrow>
               (case py_in ''facts'' ret of
                  Inl e \<Rightarrow> (Inl e, hist2)
                | Inr is_clustering \<Rightarrow>
                    if is_clustering
                    then (Inr (DSSTrainedClusteringModelDetails ret snippet None None
                                 (Some t) (Some model_id)), hist2)
                    else (Inr (DSSTrainedPredictionModelDetails ret snippet None None
                                 (Some t) (Some model_id)), hist2))))"

section \<open>Facts about subscripts, stores and statements\<close>

lemma py_setitem_Inr:
  "py_setitem x k v = Inr y \<Longrightarrow> \<exists>d. x = JObj d \<and> y = JObj (AList.update k v d)"
  by (cases x) auto

lemma py_getitem_str_Inr:
  "py_getitem x (JStr k) = Inr v \<Longrightarrow> \<exists>d. x = JObj d \<and> map_of d k = Some v"
  by (cases x) (auto split: option.splits)

lemma store_at2_Inr:
  assumes "store_at [JStr a, JStr b] key v s = Inr s'"
  shows "\<exists>d md mt. s = JObj d \<and> map_of d a = Some (JObj md) \<and> map_of md b = Some (JObj mt)"
proof -
  from assms obtain c where c: "py_getitem s (JStr a) = Inr c"
    by (auto split: sum.splits)
  then obtain d where d: "s = JObj d" "map_of d a = Some c"
    using py_getitem_str_Inr by blast
  from assms c obtain c2 where c2: "py_getitem c (JStr b) = Inr c2"
    by (auto split: sum.splits)
  then obtain md where md: "c = JObj md" "map_of md b = Some c2"
    using py_getitem_str_Inr by blast
  from assms c c2 obtain c3 where "py_setitem c2 key v = Inr c3"
    by (auto split: sum.splits)
  then obtain mt where "c2 = JObj mt"
    using py_setitem_Inr by blast
  with d md show ?thesis by blast
qed


lemma exec_append:
  "exec (xs @ ys) s = (case exec xs s of (Some e, s') \<Rightarrow> (Some e, s') | (None, s') \<Rightarrow> exec ys s')"
  by (induction xs arbitrary: s) (auto split: prod.splits option.splits)

lemma update_over:
  "k \<noteq> k' \<Longrightarrow> AList.update k v (AList.update k' v' (AList.update k v0 al)) = AList.update k' v' (AList.update k v al)"
  by (induction al) auto

lemma assign_in_dict:
  assumes "map_of d a = Some (JObj m)"
  shows "assign [JStr a] key v (JObj d) = (None, JObj (AList.update a (JObj (AList.update key v m)) d))"
  using assms by (simp add: assign_def)

lemma assign_in_dict2:
  assumes "map_of d a = Some (JObj m)" "map_of m b = Some (JObj n)"
  shows "assign [JStr a, JStr b] key v (JObj d) =
     (None, JObj (AList.update a (JObj (AList.update b (JObj (AList.update key v n)) m)) d))"
  using assms by (simp add: assign_def)

section \<open>Explicit split\<close>

lemma explicit_split_none:
  "\<exists>e. set_split_explicit bs bf trs tes None tdn trf tef s = (Some e, s)"
  by (simp add: set_split_explicit_def Let_def evaluate_def raise_if_def split: sum.splits)

lemma explicit_split_none_present:
  "py_getitem s (JStr ''splitParams'') = Inr sp \<Longrightarrow>
   set_split_explicit bs bf trs tes None tdn trf tef s =
     (Some (Exception ''For explicit splitting a dataset_name is mandatory''), s)"
  by (simp add: set_split_explicit_def Let_def evaluate_def raise_if_def split: sum.splits)

lemma explicit_split_single:
  assumes "map_of d ''splitParams'' = Some (JObj sp)"
    and "tdn = None \<or> tdn = Some dn"
  shows "set_split_explicit bs bf trs tes (Some dn) tdn trf tef (JObj d) =
    (None, JObj (AList.update ''splitParams''
       (JObj (AList.update ''efsdTest'' (split_record [] bs tes bf tef)
               (AList.update ''efsdTrain'' (split_record [] bs trs bf trf)
                 (AList.update ''efsdDatasetSmartName'' (JStr dn)
                   (AList.update ''ttPolicy'' (JStr ''EXPLICIT_FILTERING_SINGLE_DATASET'') sp))))) d))"
  using assms
  by (auto simp add: set_split_explicit_def Let_def evaluate_def raise_if_def split_record_def
      assign_in_dict assign_in_dict2 AList.update_conv' update_over)

lemma explicit_split_two:
  assumes "map_of d ''splitParams'' = Some (JObj sp)"
    and "tdn = Some tn" "tn \<noteq> dn"
  shows "set_split_explicit bs bf trs tes (Some dn) tdn trf tef (JObj d) =
    (None, JObj (AList.update ''splitParams''
       (JObj (AList.update ''eftdTest'' (split_record [(''datasetSmartName'', JStr tn)] bs tes bf tef)
               (AList.update ''eftdTrain'' (split_record [(''datasetSmartName'', JStr dn)] bs trs bf trf)
                   (AList.update ''ttPolicy'' (JStr ''EXPLICIT_FILTERING_TWO_DATASETS'') sp)))) d))"
  using assms
  by (auto simp add: set_split_explicit_def Let_def evaluate_def raise_if_def split_record_def
      assign_in_dict assign_in_dict2 AList.update_conv' update_over)

lemma has_keys_dict:
  "map_of d a = Some (JObj m) \<Longrightarrow> has_keys ks [JStr a] (JObj d) = (set ks \<subseteq> fst ` set m)"
  by (auto simp add: has_keys_def list_all_iff)

text \<open>
  Claim C1, as the code has it. Without a dataset name the call raises and writes nothing:
  the mandatory-name error whenever the settings hold \<^verbatim>\<open>splitParams\<close>. With a
  name, and a test dataset that is absent or the same, the policy becomes
  \<^verbatim>\<open>EXPLICIT_FILTERING_SINGLE_DATASET\<close> and \<^verbatim>\<open>efsdDatasetSmartName\<close>,
  \<^verbatim>\<open>efsdTrain\<close>, \<^verbatim>\<open>efsdTest\<close> are written, the two records fresh and
  carrying the selection and filter that were given; with a different test dataset the
  policy becomes \<^verbatim>\<open>EXPLICIT_FILTERING_TWO_DATASETS\<close> and \<^verbatim>\<open>eftdTrain\<close>,
  \<^verbatim>\<open>eftdTest\<close> are written, each record with its own
  \<^verbatim>\<open>datasetSmartName\<close>. The call writes the keys of one shape and removes no key:
  the written shape is present afterwards, and the other shape is present afterwards
  exactly when it was present before.
\<close>

theorem explicit_split_writes_one_shape:
  "(\<exists>e. set_split_explicit bs bf trs tes None tdn trf tef s = (Some e, s)) \<and>
   (py_getitem s (JStr ''splitParams'') = Inr v \<longrightarrow>
      set_split_explicit bs bf trs tes None tdn trf tef s =
        (Some (Exception ''For explicit splitting a dataset_name is mandatory''), s)) \<and>
   (map_of d ''splitParams'' = Some (JObj sp) \<longrightarrow>
      (tdn = None \<or> tdn = Some dn \<longrightarrow>
         set_split_explicit bs bf trs tes (Some dn) tdn trf tef (JObj d) =
           (None, JObj (AList.update ''splitParams''
              (JObj (AList.update ''efsdTest'' (split_record [] bs tes bf tef)
                      (AList.update ''efsdTrain'' (split_record [] bs trs bf trf)
                        (AList.update ''efsdDatasetSmartName'' (JStr dn)
                          (AList.update ''ttPolicy'' (JStr ''EXPLICIT_FILTERING_SINGLE_DATASET'')
                             sp))))) d)) \<and>
         single_dataset_shape
           (snd (set_split_explicit bs bf trs tes (Some dn) tdn trf tef (JObj d))) \<and>
         two_datasets_shape
           (snd (set_split_explicit bs bf trs tes (Some dn) tdn trf tef (JObj d))) =
         two_datasets_shape (JObj d)) \<and>
      (tdn = Some tn \<and> tn \<noteq> dn \<longrightarrow>
         set_split_explicit bs bf trs tes (Some dn) tdn trf tef (JObj d) =
           (None, JObj (AList.update ''splitParams''
              (JObj (AList.update ''eftdTest''
                       (split_record [(''datasetSmartName'', JStr tn)] bs tes bf tef)
                      (AList.update ''eftdTrain''
                         (split_record [(''datasetSmartName'', JStr dn)] bs trs bf trf)
                        (AList.update ''ttPolicy'' (JStr ''EXPLICIT_FILTERING_TWO_DATASETS'')
                           sp)))) d)) \<and>
         two_datasets_shape
           (snd (set_split_explicit bs bf trs tes (Some dn) tdn trf tef (JObj d))) \<and>
         single_dataset_shape
           (snd (set_split_explicit bs bf trs tes (Some dn) tdn trf tef (JObj d))) =
         single_dataset_shape (JObj d)))"
proof (intro conjI impI)
  show "\<exists>e. set_split_explicit bs bf trs tes None tdn trf tef s = (Some e, s)"
    by (rule explicit_split_none)
next
  assume "py_getitem s (JStr ''splitParams'') = Inr v"
  then show "set_split_explicit bs bf trs tes None tdn trf tef s =
        (Some (Exception ''For explicit splitting a dataset_name is mandatory''), s)"
    by (rule explicit_split_none_present)
next
  assume sp: "map_of d ''splitParams'' = Some (JObj sp)" and one: "tdn = None \<or> tdn = Some dn"
  note run = explicit_split_single [OF sp one]
  show "set_split_explicit bs bf trs tes (Some dn) tdn trf tef (JObj d) =
           (None, JObj (AList.update ''splitParams''
              (JObj (AList.update ''efsdTest'' (split_record [] bs tes bf tef)
                      (AList.update ''efsdTrain'' (split_record [] bs trs bf trf)
                        (AList.update ''efsdDatasetSmartName'' (JStr dn)
                          (AList.update ''ttPolicy'' (JStr ''EXPLICIT_FILTERING_SINGLE_DATASET'')
                             sp))))) d))"
    by (rule run)
  show "single_dataset_shape
           (snd (set_split_explicit bs bf trs tes (Some dn) tdn trf tef (JObj d)))"
    by (simp add: run single_dataset_shape_def has_keys_dict AList.update_conv' AList.dom_update)
  show "two_datasets_shape
           (snd (set_split_explicit bs bf trs tes (Some dn) tdn trf tef (JObj d))) =
         two_datasets_shape (JObj d)"
    using sp
    by (simp add: run two_datasets_shape_def has_keys_dict AList.update_conv' AList.dom_update)
next
  assume sp: "map_of d ''splitParams'' = Some (JObj sp)" and two: "tdn = Some tn \<and> tn \<noteq> dn"
  from two have t1: "tdn = Some tn" and t2: "tn \<noteq> dn" by simp_all
  note run = explicit_split_two [OF sp t1 t2]
  show "set_split_explicit bs bf trs tes (Some dn) tdn trf tef (JObj d) =
           (None, JObj (AList.update ''splitParams''
              (JObj (AList.update ''eftdTest''
                       (split_record [(''datasetSmartName'', JStr tn)] bs tes bf tef)
                      (AList.update ''eftdTrain''
                         (split_record [(''datasetSmartName'', JStr dn)] bs trs bf trf)
                        (AList.update ''ttPolicy'' (JStr ''EXPLICIT_FILTERING_TWO_DATASETS'')
                           sp)))) d))"
    by (rule run)
  show "two_datasets_shape
           (snd (set_split_explicit bs bf trs tes (Some dn) tdn trf tef (JObj d)))"
    by (simp add: run two_datasets_shape_def has_keys_dict AList.update_conv' AList.dom_update)
  show "single_dataset_shape
           (snd (set_split_explicit bs bf trs tes (Some dn) tdn trf tef (JObj d))) =
         single_dataset_shape (JObj d)"
    using sp
    by (simp add: run single_dataset_shape_def has_keys_dict AList.update_conv' AList.dom_update)
qed

text \<open>
  The theorem at three calls: one dataset with a selection builder and a raw filter, two
  datasets, and no dataset name.
\<close>

theorem explicit_split_writes_one_shape_witness:
  "set_split_explicit id id (Plain JNull) (Builder (JObj [(''samplingMethod'', JStr ''FULL'')]))
      (Some ''train_ds'') None (Plain (JObj [(''enabled'', JBool True)])) (Plain JNull)
      (JObj [(''splitParams'', JObj [(''ttPolicy'', JStr ''SPLIT_SINGLE_DATASET'')])]) =
    (None,
     JObj [(''splitParams'',
            JObj [(''ttPolicy'', JStr ''EXPLICIT_FILTERING_SINGLE_DATASET''),
                  (''efsdDatasetSmartName'', JStr ''train_ds''),
                  (''efsdTrain'', JObj [(''filter'', JObj [(''enabled'', JBool True)])]),
                  (''efsdTest'',
                   JObj [(''selection'', JObj [(''samplingMethod'', JStr ''FULL'')])])])]) \<and>
   set_split_explicit id id (Plain JNull) (Plain JNull)
      (Some ''train_ds'') (Some ''test_ds'') (Plain JNull) (Plain JNull)
      (JObj [(''splitParams'', JObj [])]) =
    (None,
     JObj [(''splitParams'',
            JObj [(''ttPolicy'', JStr ''EXPLICIT_FILTERING_TWO_DATASETS''),
                  (''eftdTrain'', JObj [(''datasetSmartName'', JStr ''train_ds'')]),
                  (''eftdTest'', JObj [(''datasetSmartName'', JStr ''test_ds'')])])]) \<and>
   set_split_explicit id id (Plain JNull) (Plain JNull)
      None (Some ''test_ds'') (Plain JNull) (Plain JNull)
      (JObj [(''splitParams'', JObj [])]) =
    (Some (Exception ''For explicit splitting a dataset_name is mandatory''),
     JObj [(''splitParams'', JObj [])])"
  using explicit_split_writes_one_shape
     [where bs = id and bf = id and trs = "Plain JNull"
        and tes = "Builder (JObj [(''samplingMethod'', JStr ''FULL'')])"
        and dn = "''train_ds''" and tdn = None
        and trf = "Plain (JObj [(''enabled'', JBool True)])" and tef = "Plain JNull"
        and d = "[(''splitParams'', JObj [(''ttPolicy'', JStr ''SPLIT_SINGLE_DATASET'')])]"
        and sp = "[(''ttPolicy'', JStr ''SPLIT_SINGLE_DATASET'')]"
        and s = "JObj [(''splitParams'', JObj [])]" and v = "JObj []"]
    explicit_split_writes_one_shape
     [where bs = id and bf = id and trs = "Plain JNull" and tes = "Plain JNull"
        and dn = "''train_ds''" and tdn = "Some ''test_ds''" and tn = "''test_ds''"
        and trf = "Plain JNull" and tef = "Plain JNull"
        and d = "[(''splitParams'', JObj [])]" and sp = "[]"
        and s = "JObj [(''splitParams'', JObj [])]" and v = "JObj []"]
  by (simp add: split_record_def)

text \<open>
  Claim C1 as stated fails: after a two-dataset call followed by a one-dataset call on
  the same settings, the keys of both shapes are present.
\<close>

theorem explicit_split_both_shapes_counterexample:
  "single_dataset_shape
     (snd (set_split_explicit id id (Plain JNull) (Plain JNull) (Some ''train_ds'') None
             (Plain JNull) (Plain JNull)
        (snd (set_split_explicit id id (Plain JNull) (Plain JNull) (Some ''train_ds'')
                (Some ''test_ds'') (Plain JNull) (Plain JNull)
                (JObj [(''splitParams'', JObj [])]))))) \<and>
   two_datasets_shape
     (snd (set_split_explicit id id (Plain JNull) (Plain JNull) (Some ''train_ds'') None
             (Plain JNull) (Plain JNull)
        (snd (set_split_explicit id id (Plain JNull) (Plain JNull) (Some ''train_ds'')
                (Some ''test_ds'') (Plain JNull) (Plain JNull)
                (JObj [(''splitParams'', JObj [])])))))"
  by (simp add: set_split_explicit_def Let_def evaluate_def raise_if_def assign_def
      single_dataset_shape_def two_datasets_shape_def has_keys_def)

section \<open>Metric\<close>

lemma set_metric_none: "set_metric None None gib np s = (Some (ValueError ''Either metric or custom_metric must be defined''), s)"
  by (simp add: set_metric_def raise_if_def)

lemma set_metric_ok:
  assumes "metric \<noteq> None \<or> custom \<noteq> None" "map_of d ''modeling'' = Some (JObj md)" "map_of md ''metrics'' = Some (JObj mt)"
  shows "set_metric metric custom gib np (JObj d) = (None, JObj (AList.update ''modeling'' (JObj (AList.update ''metrics'' (JObj
     (AList.update ''customEvaluationMetricNeedsProba'' (JBool np)
       (AList.update ''customEvaluationMetricGIB'' (JBool gib)
         (AList.update ''customEvaluationMetricCode'' (opt_str custom)
           (AList.update ''evaluationMetric'' (if custom = None then opt_str metric else JStr ''CUSTOM'') mt))))) md)) d))"
  using assms by (auto simp add: set_metric_def raise_if_def assign_def AList.update_conv')

text \<open>
  Claim C2, as the code has it. \<^verbatim>\<open>set_metric\<close> requires at least one of a
  named metric and a custom-metric code: with neither it raises before writing anything.
  Otherwise, on settings that hold \<^verbatim>\<open>modeling.metrics\<close>, it writes the four
  fields: the evaluation metric is the named metric when no custom code is given and
  \<^verbatim>\<open>CUSTOM\<close> when one is (also when a named metric is given too), the code is
  stored verbatim (\<^verbatim>\<open>None\<close> when absent). Every call that does not raise has
  written all four fields.
\<close>

theorem set_metric_at_least_one:
  "set_metric None None gib np s =
     (Some (ValueError ''Either metric or custom_metric must be defined''), s) \<and>
   ((metric \<noteq> None \<or> custom \<noteq> None) \<and> map_of d ''modeling'' = Some (JObj md) \<and>
    map_of md ''metrics'' = Some (JObj mt) \<longrightarrow>
      set_metric metric custom gib np (JObj d) =
        (None, JObj (AList.update ''modeling'' (JObj (AList.update ''metrics'' (JObj
           (AList.update ''customEvaluationMetricNeedsProba'' (JBool np)
             (AList.update ''customEvaluationMetricGIB'' (JBool gib)
               (AList.update ''customEvaluationMetricCode'' (opt_str custom)
                 (AList.update ''evaluationMetric''
                    (if custom = None then opt_str metric else JStr ''CUSTOM'') mt))))) md)) d))) \<and>
   (set_metric metric custom gib np s = (None, s') \<longrightarrow>
      load_at [JStr ''modeling'', JStr ''metrics'', JStr ''evaluationMetric''] s' =
        Inr (if custom = None then opt_str metric else JStr ''CUSTOM'') \<and>
      load_at [JStr ''modeling'', JStr ''metrics'', JStr ''customEvaluationMetricCode''] s' =
        Inr (opt_str custom) \<and>
      load_at [JStr ''modeling'', JStr ''metrics'', JStr ''customEvaluationMetricGIB''] s' =
        Inr (JBool gib) \<and>
      load_at [JStr ''modeling'', JStr ''metrics'', JStr ''customEvaluationMetricNeedsProba''] s' =
        Inr (JBool np))"
proof (intro conjI impI)
  show "set_metric None None gib np s =
     (Some (ValueError ''Either metric or custom_metric must be defined''), s)"
    by (rule set_metric_none)
next
  assume "(metric \<noteq> None \<or> custom \<noteq> None) \<and> map_of d ''modeling'' = Some (JObj md) \<and>
    map_of md ''metrics'' = Some (JObj mt)"
  then show "set_metric metric custom gib np (JObj d) =
        (None, JObj (AList.update ''modeling'' (JObj (AList.update ''metrics'' (JObj
           (AList.update ''customEvaluationMetricNeedsProba'' (JBool np)
             (AList.update ''customEvaluationMetricGIB'' (JBool gib)
               (AList.update ''customEvaluationMetricCode'' (opt_str custom)
                 (AList.update ''evaluationMetric''
                    (if custom = None then opt_str metric else JStr ''CUSTOM'') mt))))) md)) d))"
    using set_metric_ok by blast
next
  assume ok: "set_metric metric custom gib np s = (None, s')"
  have given: "metric \<noteq> None \<or> custom \<noteq> None"
    using ok by (auto simp add: set_metric_def raise_if_def split: if_splits)
  have "\<exists>s1. store_at [JStr ''modeling'', JStr ''metrics''] ''evaluationMetric''
          (if custom = None then opt_str metric else JStr ''CUSTOM'') s = Inr s1"
    using ok given
    by (auto simp add: set_metric_def raise_if_def assign_def split: sum.splits if_splits)
  then obtain d md mt where shape: "s = JObj d" "map_of d ''modeling'' = Some (JObj md)"
      "map_of md ''metrics'' = Some (JObj mt)"
    using store_at2_Inr by blast
  have s': "s' = JObj (AList.update ''modeling'' (JObj (AList.update ''metrics'' (JObj
           (AList.update ''customEvaluationMetricNeedsProba'' (JBool np)
             (AList.update ''customEvaluationMetricGIB'' (JBool gib)
               (AList.update ''customEvaluationMetricCode'' (opt_str custom)
                 (AList.update ''evaluationMetric''
                    (if custom = None then opt_str metric else JStr ''CUSTOM'') mt))))) md)) d)"
    using ok set_metric_ok [OF given shape(2,3), of gib np] shape(1) by simp
  show "load_at [JStr ''modeling'', JStr ''metrics'', JStr ''evaluationMetric''] s' =
        Inr (if custom = None then opt_str metric else JStr ''CUSTOM'')"
    by (simp add: s' AList.update_conv')
  show "load_at [JStr ''modeling'', JStr ''metrics'', JStr ''customEvaluationMetricCode''] s' =
        Inr (opt_str custom)"
    by (simp add: s' AList.update_conv')
  show "load_at [JStr ''modeling'', JStr ''metrics'', JStr ''customEvaluationMetricGIB''] s' =
        Inr (JBool gib)"
    by (simp add: s' AList.update_conv')
  show "load_at [JStr ''modeling'', JStr ''metrics'', JStr ''customEvaluationMetricNeedsProba''] s' =
        Inr (JBool np)"
    by (simp add: s' AList.update_conv')
qed

text \<open>
  The theorem at the call \<^verbatim>\<open>set_metric(metric="AUC")\<close>.
\<close>

theorem set_metric_at_least_one_witness:
  "set_metric (Some ''AUC'') None True False
     (JObj [(''modeling'', JObj [(''metrics'', JObj [(''evaluationMetric'', JStr ''F1'')])])]) =
   (None,
    JObj [(''modeling'', JObj [(''metrics'',
       JObj [(''evaluationMetric'', JStr ''AUC''),
             (''customEvaluationMetricCode'', JNull),
             (''customEvaluationMetricGIB'', JBool True),
             (''customEvaluationMetricNeedsProba'', JBool False)])])]) \<and>
   load_at [JStr ''modeling'', JStr ''metrics'', JStr ''evaluationMetric'']
     (JObj [(''modeling'', JObj [(''metrics'',
       JObj [(''evaluationMetric'', JStr ''AUC''),
             (''customEvaluationMetricCode'', JNull),
             (''customEvaluationMetricGIB'', JBool True),
             (''customEvaluationMetricNeedsProba'', JBool False)])])]) = Inr (JStr ''AUC'')"
  using set_metric_at_least_one
     [where metric = "Some ''AUC''" and custom = None and gib = True and np = False
        and d = "[(''modeling'', JObj [(''metrics'', JObj [(''evaluationMetric'', JStr ''F1'')])])]"
        and md = "[(''metrics'', JObj [(''evaluationMetric'', JStr ''F1'')])]"
        and mt = "[(''evaluationMetric'', JStr ''F1'')]"
        and s = "JObj [(''modeling'', JObj [(''metrics'', JObj [(''evaluationMetric'', JStr ''F1'')])])]"
        and s' = "JObj [(''modeling'', JObj [(''metrics'',
       JObj [(''evaluationMetric'', JStr ''AUC''),
             (''customEvaluationMetricCode'', JNull),
             (''customEvaluationMetricGIB'', JBool True),
             (''customEvaluationMetricNeedsProba'', JBool False)])])]"]
  by simp

text \<open>
  Claim C2 as stated fails: with both a named metric and a custom code the call does not
  raise; the custom code wins.
\<close>

theorem set_metric_both_given_counterexample:
  "set_metric (Some ''AUC'') (Some ''def score(y_valid, y_pred): return 0'') True False
     (JObj [(''modeling'', JObj [(''metrics'', JObj [])])]) =
   (None,
    JObj [(''modeling'', JObj [(''metrics'',
       JObj [(''evaluationMetric'', JStr ''CUSTOM''),
             (''customEvaluationMetricCode'', JStr ''def score(y_valid, y_pred): return 0''),
             (''customEvaluationMetricGIB'', JBool True),
             (''customEvaluationMetricNeedsProba'', JBool False)])])])"
  by (simp add: set_metric_def raise_if_def assign_def)

section \<open>Algorithm settings\<close>

lemma remap_values_lower:
  "list_all (\<lambda>kr. lower (snd kr) = snd kr) (algorithm_remap cls)"
  by (cases cls) (simp_all add: lower_def lower_char_def)

lemma remap_is_lower:
  assumes "map_of (algorithm_remap cls) algorithm_name = Some r"
  shows "lower r = r"
proof -
  from assms have "(algorithm_name, r) \<in> set (algorithm_remap cls)"
    by (rule map_of_SomeD)
  with remap_values_lower [of cls] show ?thesis
    by (auto simp add: list_all_iff)
qed

lemma algorithm_ref_eq:
  "algorithm_ref cls algorithm_name =
     [JStr ''modeling'',
      JStr (case map_of (algorithm_remap cls) algorithm_name of
              Some r \<Rightarrow> r
            | None \<Rightarrow> lower algorithm_name)]"
  by (auto simp add: algorithm_ref_def remap_is_lower split: option.splits)

lemma assign_failure_keeps:
  "assign path key v s = (Some e, s') \<Longrightarrow> s' = s"
  by (auto simp add: assign_def split: sum.splits)

text \<open>
  Claim C8. The algorithm name is first looked up in the remap table of the settings
  class: a name that is a key of the table reads \<^verbatim>\<open>modeling\<close> under the table's
  value, any other name under its lower-case form. On settings that hold that entry,
  \<^verbatim>\<open>set_algorithm_enabled\<close> rewrites the \<^verbatim>\<open>enabled\<close> field of exactly that
  entry and leaves the rest as it is; when it raises, the settings are unchanged.
\<close>

theorem algorithm_settings_remapped:
  "get_algorithm_settings cls algorithm_name s =
     load_at [JStr ''modeling'',
              JStr (case map_of (algorithm_remap cls) algorithm_name of
                      Some r \<Rightarrow> r
                    | None \<Rightarrow> lower algorithm_name)] s \<and>
   (map_of d ''modeling'' = Some (JObj md) \<and>
    map_of md (case map_of (algorithm_remap cls) algorithm_name of
                 Some r \<Rightarrow> r
               | None \<Rightarrow> lower algorithm_name) = Some (JObj entry) \<longrightarrow>
      get_algorithm_settings cls algorithm_name (JObj d) = Inr (JObj entry) \<and>
      set_algorithm_enabled cls algorithm_name enabled (JObj d) =
        (None,
         JObj (AList.update ''modeling''
                 (JObj (AList.update
                          (case map_of (algorithm_remap cls) algorithm_name of
                             Some r \<Rightarrow> r
                           | None \<Rightarrow> lower algorithm_name)
                          (JObj (AList.update ''enabled'' enabled entry)) md)) d))) \<and>
   (set_algorithm_enabled cls algorithm_name enabled s = (Some e, s') \<longrightarrow> s' = s)"
proof (intro conjI impI)
  show "get_algorithm_settings cls algorithm_name s =
     load_at [JStr ''modeling'',
              JStr (case map_of (algorithm_remap cls) algorithm_name of
                      Some r \<Rightarrow> r
                    | None \<Rightarrow> lower algorithm_name)] s"
    by (simp add: get_algorithm_settings_def algorithm_ref_eq)
next
  assume h: "map_of d ''modeling'' = Some (JObj md) \<and>
    map_of md (case map_of (algorithm_remap cls) algorithm_name of
                 Some r \<Rightarrow> r
               | None \<Rightarrow> lower algorithm_name) = Some (JObj entry)"
  then show "get_algorithm_settings cls algorithm_name (JObj d) = Inr (JObj entry)"
    by (simp add: get_algorithm_settings_def algorithm_ref_eq)
  from h show "set_algorithm_enabled cls algorithm_name enabled (JObj d) =
        (None,
         JObj (AList.update ''modeling''
                 (JObj (AList.update
                          (case map_of (algorithm_remap cls) algorithm_name of
                             Some r \<Rightarrow> r
                           | None \<Rightarrow> lower algorithm_name)
                          (JObj (AList.update ''enabled'' enabled entry)) md)) d))"
    by (simp add: set_algorithm_enabled_def algorithm_ref_eq assign_in_dict2)
next
  assume "set_algorithm_enabled cls algorithm_name enabled s = (Some e, s')"
  then show "s' = s"
    unfolding set_algorithm_enabled_def by (rule assign_failure_keeps)
qed

text \<open>
  The theorem at a remapped name of the prediction class and at a name the clustering
  table does not hold.
\<close>

theorem algorithm_settings_remapped_witness:
  "get_algorithm_settings DSSPredictionMLTaskSettings ''XGBOOST_REGRESSION''
     (JObj [(''modeling'', JObj [(''xgboost'', JObj [(''enabled'', JBool False)]),
                                (''ridge_regression'', JObj [(''enabled'', JBool True)])])]) =
     Inr (JObj [(''enabled'', JBool False)]) \<and>
   set_algorithm_enabled DSSPredictionMLTaskSettings ''XGBOOST_REGRESSION'' (JBool True)
     (JObj [(''modeling'', JObj [(''xgboost'', JObj [(''enabled'', JBool False)]),
                                (''ridge_regression'', JObj [(''enabled'', JBool True)])])]) =
     (None,
      JObj [(''modeling'', JObj [(''xgboost'', JObj [(''enabled'', JBool True)]),
                                 (''ridge_regression'', JObj [(''enabled'', JBool True)])])]) \<and>
   set_algorithm_enabled DSSClusteringMLTaskSettings ''KMEANS'' (JBool True)
     (JObj [(''modeling'', JObj [(''kmeans_clustering'', JObj [(''enabled'', JBool False)]),
                                (''kmeans'', JObj [(''enabled'', JBool False)])])]) =
     (None,
      JObj [(''modeling'', JObj [(''kmeans_clustering'', JObj [(''enabled'', JBool False)]),
                                 (''kmeans'', JObj [(''enabled'', JBool True)])])])"
  using algorithm_settings_remapped
     [where cls = DSSPredictionMLTaskSettings and algorithm_name = "''XGBOOST_REGRESSION''"
        and enabled = "JBool True"
        and d = "[(''modeling'', JObj [(''xgboost'', JObj [(''enabled'', JBool False)]),
                                (''ridge_regression'', JObj [(''enabled'', JBool True)])])]"
        and md = "[(''xgboost'', JObj [(''enabled'', JBool False)]),
                   (''ridge_regression'', JObj [(''enabled'', JBool True)])]"
        and entry = "[(''enabled'', JBool False)]"]
    algorithm_settings_remapped
     [where cls = DSSClusteringMLTaskSettings and algorithm_name = "''KMEANS''"
        and enabled = "JBool True"
        and d = "[(''modeling'', JObj [(''kmeans_clustering'', JObj [(''enabled'', JBool False)]),
                                (''kmeans'', JObj [(''enabled'', JBool False)])])]"
        and md = "[(''kmeans_clustering'', JObj [(''enabled'', JBool False)]),
                                (''kmeans'', JObj [(''enabled'', JBool False)])]"
        and entry = "[(''enabled'', JBool False)]"]
  by (simp add: lower_def lower_char_def)

section \<open>Sample weighting\<close>

lemma update_middle:
  "k \<notin> fst ` set xs \<Longrightarrow> AList.update k v (xs @ (k, w) # ys) = xs @ (k, v) # ys"
  by (induction xs) auto

lemma map_of_middle:
  "k \<notin> fst ` set xs \<Longrightarrow> map_of (xs @ (k, w) # ys) k = Some w"
  by (induction xs) auto

lemma reset_weight_role_feature:
  assumes "map_of D ''preprocessing'' = Some (JObj P)"
    and "map_of P ''per_feature'' = Some (JObj F)"
    and "map_of F k = Some (JObj params)"
    and "''role'' \<in> fst ` set params"
  shows "reset_weight_role (JStr k) (JObj D) =
     (None, JObj (AList.update ''preprocessing''
        (JObj (AList.update ''per_feature''
           (JObj (AList.update k (demote_weight (JObj params)) F)) P)) D))"
proof -
  from assms(4) obtain r where r: "map_of params ''role'' = Some r"
    by (metis domD dom_map_of_conv_image_fst)
  show ?thesis
  proof (cases "r = JStr ''WEIGHT''")
    case True
    with assms r show ?thesis
      by (simp add: reset_weight_role_def assign_def)
  next
    case False
    with assms r show ?thesis
      by (simp add: reset_weight_role_def AList.update_triv)
  qed
qed

lemma reset_loop:
  assumes "map_of D ''preprocessing'' = Some (JObj P)"
    and "distinct (map fst (xs @ ys))"
    and "\<forall>kv\<in>set ys. \<exists>params. snd kv = JObj params \<and> ''role'' \<in> fst ` set params"
  shows "exec (map reset_weight_role (map (\<lambda>p. JStr (fst p)) ys))
           (JObj (AList.update ''preprocessing''
              (JObj (AList.update ''per_feature'' (JObj (xs @ ys)) P)) D)) =
         (None, JObj (AList.update ''preprocessing''
              (JObj (AList.update ''per_feature''
                 (JObj (xs @ map (\<lambda>(k, v). (k, demote_weight v)) ys)) P)) D))"
  using assms(2,3)
proof (induction ys arbitrary: xs)
  case Nil
  then show ?case by simp
next
  case (Cons kv ys)
  obtain k v where kv: "kv = (k, v)" by (cases kv)
  from Cons.prems(2) kv obtain params where v: "v = JObj params"
      and role: "''role'' \<in> fst ` set params"
    by auto
  from Cons.prems(1) kv have fresh: "k \<notin> fst ` set xs"
    by auto
  let ?S = "\<lambda>F. JObj (AList.update ''preprocessing''
              (JObj (AList.update ''per_feature'' (JObj F) P)) D)"
  let ?F = "xs @ (k, JObj params) # ys"
  have m: "map_of ?F k = Some (JObj params)"
    using fresh by (rule map_of_middle)
  have u: "AList.update k (demote_weight (JObj params)) ?F =
           xs @ (k, demote_weight (JObj params)) # ys"
    using fresh by (rule update_middle)
  have pre': "map_of (AList.update ''preprocessing''
                 (JObj (AList.update ''per_feature'' (JObj ?F) P)) D) ''preprocessing'' =
              Some (JObj (AList.update ''per_feature'' (JObj ?F) P))"
    by (simp add: AList.update_conv')
  have pf': "map_of (AList.update ''per_feature'' (JObj ?F) P) ''per_feature'' = Some (JObj ?F)"
    by (simp add: AList.update_conv')
  have step: "reset_weight_role (JStr k) (?S (xs @ (k, v) # ys)) =
        (None, ?S ((xs @ [(k, demote_weight v)]) @ ys))"
    using reset_weight_role_feature [OF pre' pf' m role]
    by (simp only: v u AList.update_last append_assoc append_Cons append_Nil)
  have "distinct (map fst ((xs @ [(k, demote_weight v)]) @ ys))"
    using Cons.prems(1) kv by auto
  moreover have "\<forall>kv\<in>set ys. \<exists>params. snd kv = JObj params \<and> ''role'' \<in> fst ` set params"
    using Cons.prems(2) by simp
  ultimately have "exec (map reset_weight_role (map (\<lambda>p. JStr (fst p)) ys))
           (?S ((xs @ [(k, demote_weight v)]) @ ys)) =
         (None, ?S ((xs @ [(k, demote_weight v)]) @ map (\<lambda>(k, v). (k, demote_weight v)) ys))"
    by (rule Cons.IH)
  with step show ?case
    by (simp add: kv)
qed

lemma remove_sample_weighting_spec:
  assumes "map_of d ''weight'' = Some (JObj w)"
    and "map_of d ''preprocessing'' = Some (JObj p)"
    and "map_of p ''per_feature'' = Some (JObj f)"
    and "distinct (map fst f)"
    and "\<forall>kv\<in>set f. \<exists>params. snd kv = JObj params \<and> ''role'' \<in> fst ` set params"
  shows "remove_sample_weighting (JObj d) = (None, reset_step_spec d w p f)"
proof -
  let ?D = "AList.update ''weight''
              (JObj (AList.update ''weightMethod'' (JStr ''NO_WEIGHTING'') w)) d"
  have pre: "map_of ?D ''preprocessing'' = Some (JObj p)"
    using assms(2) by (simp add: AList.update_conv')
  have same: "JObj (AList.update ''preprocessing''
              (JObj (AList.update ''per_feature'' (JObj ([] @ f)) p)) ?D) = JObj ?D"
    using pre assms(3) by (simp add: AList.update_triv)
  have loop: "exec (map reset_weight_role (map (\<lambda>p. JStr (fst p)) f)) (JObj ?D) =
         (None, JObj (AList.update ''preprocessing''
              (JObj (AList.update ''per_feature''
                 (JObj ([] @ map (\<lambda>(k, v). (k, demote_weight v)) f)) p)) ?D))"
    using reset_loop [where D = ?D and P = p and xs = "[]" and ys = f, OF pre] assms(4,5)
    unfolding same by simp
  have first: "assign [JStr ''weight''] ''weightMethod'' (JStr ''NO_WEIGHTING'') (JObj d) =
      (None, JObj ?D)"
    using assms(1) by (rule assign_in_dict)
  have iter: "for_each_in [JStr ''preprocessing'', JStr ''per_feature''] reset_weight_role (JObj ?D) =
      exec (map reset_weight_role (map (\<lambda>p. JStr (fst p)) f)) (JObj ?D)"
    using pre assms(3) by (simp add: for_each_in_def)
  show ?thesis
    by (simp add: remove_sample_weighting_def first iter loop reset_step_spec_def
        del: map_map)
qed

lemma keys_demoted:
  "map fst (map (\<lambda>(k, v). (k, demote_weight v)) f) = map fst f"
  by (induction f) auto

lemma map_of_demoted:
  "map_of (map (\<lambda>(k, v). (k, demote_weight v)) f) k = map_option demote_weight (map_of f k)"
  by (induction f) auto

lemma reweight_demoted:
  "\<exists>q. demote_weight (JObj params) = JObj q \<and>
       AList.update ''role'' r q = AList.update ''role'' r params"
  by simp

lemma use_sample_weighting_absent:
  assumes "map_of d ''weight'' = Some (JObj w)"
    and "map_of d ''preprocessing'' = Some (JObj p)"
    and "map_of p ''per_feature'' = Some (JObj f)"
    and "distinct (map fst f)"
    and "\<forall>kv\<in>set f. \<exists>params. snd kv = JObj params \<and> ''role'' \<in> fst ` set params"
    and "feature_name \<notin> fst ` set f"
  shows "use_sample_weighting feature_name (JObj d) =
     (Some (ValueError (''Feature '' @ feature_name @
                        '' doesn't exist in this ML task, can't use as weight'')),
      reset_step_spec d w p f)"
proof -
  have "raise_unless_in feature_name [JStr ''preprocessing'', JStr ''per_feature''] err
          (reset_step_spec d w p f) = (Some err, reset_step_spec d w p f)" for err
    using assms(6)
    by (simp add: raise_unless_in_def reset_step_spec_def AList.update_conv' keys_demoted
        del: map_map)
  then show ?thesis
    by (simp add: use_sample_weighting_def remove_sample_weighting_spec [OF assms(1-5)])
qed

lemma use_sample_weighting_present:
  assumes "map_of d ''weight'' = Some (JObj w)"
    and "map_of d ''preprocessing'' = Some (JObj p)"
    and "map_of p ''per_feature'' = Some (JObj f)"
    and "distinct (map fst f)"
    and "\<forall>kv\<in>set f. \<exists>params. snd kv = JObj params \<and> ''role'' \<in> fst ` set params"
    and "map_of f feature_name = Some (JObj params)"
  shows "use_sample_weighting feature_name (JObj d) =
     (None,
      JObj (AList.update ''preprocessing''
              (JObj (AList.update ''per_feature''
                       (JObj (AList.update feature_name
                                (JObj (AList.update ''role'' (JStr ''WEIGHT'') params))
                                (map (\<lambda>(k, v). (k, demote_weight v)) f))) p))
              (AList.update ''weight''
                 (JObj (AList.update ''sampleWeightVariable'' (JStr feature_name)
                          (AList.update ''weightMethod'' (JStr ''SAMPLE_WEIGHT'') w))) d)))"
proof -
  let ?F = "map (\<lambda>(k, v). (k, demote_weight v)) f"
  let ?W = "\<lambda>w'. AList.update ''weight'' (JObj w') d"
  let ?S = "\<lambda>w' F. JObj (AList.update ''preprocessing''
                (JObj (AList.update ''per_feature'' (JObj F) p)) (?W w'))"
  have s1: "reset_step_spec d w p f =
            ?S (AList.update ''weightMethod'' (JStr ''NO_WEIGHTING'') w) ?F"
    by (simp add: reset_step_spec_def)
  have present: "feature_name \<in> fst ` set f"
    using assms(6) by (metis domI dom_map_of_conv_image_fst)
  have chk: "raise_unless_in feature_name [JStr ''preprocessing'', JStr ''per_feature''] err
          (?S w' ?F) = (None, ?S w' ?F)" for err w'
    using present
    by (simp add: raise_unless_in_def AList.update_conv' keys_demoted del: map_map)
  have a1: "assign [JStr ''weight''] key v (?S w' F) = (None, ?S (AList.update key v w') F)"
    for key v w' F
    by (simp add: assign_def AList.update_conv' update_over)
  obtain q where q: "demote_weight (JObj params) = JObj q"
      "AList.update ''role'' (JStr ''WEIGHT'') q = AList.update ''role'' (JStr ''WEIGHT'') params"
    using reweight_demoted by blast
  have look: "map_of ?F feature_name = Some (JObj q)"
    using assms(6) q(1) by (simp add: map_of_demoted del: map_map)
  have a3: "assign [JStr ''preprocessing'', JStr ''per_feature'', JStr feature_name] ''role''
              (JStr ''WEIGHT'') (?S w' ?F) =
            (None, ?S w' (AList.update feature_name
                            (JObj (AList.update ''role'' (JStr ''WEIGHT'') params)) ?F))" for w'
    using look q(2) by (simp add: assign_def AList.update_conv' del: map_map)
  show ?thesis
    unfolding use_sample_weighting_def
    by (simp add: remove_sample_weighting_spec [OF assms(1-5)] s1 chk a1 a3 del: map_map)
qed

text \<open>
  Claim C5. On settings that hold a \<^verbatim>\<open>weight\<close> mapping and a
  \<^verbatim>\<open>preprocessing.per_feature\<close> mapping whose features are mappings with a role:
  the reset step \<^verbatim>\<open>remove_sample_weighting\<close> produces the state the specification
  describes (weight method \<^verbatim>\<open>NO_WEIGHTING\<close>, every \<^verbatim>\<open>WEIGHT\<close> role turned
  into \<^verbatim>\<open>INPUT\<close>, \<^verbatim>\<open>sampleWeightVariable\<close> and everything else as before);
  \<^verbatim>\<open>use_sample_weighting\<close> on a feature name that \<^verbatim>\<open>per_feature\<close> does not
  hold raises the validation error and leaves exactly that state; on a name that it holds
  it returns with weight method \<^verbatim>\<open>SAMPLE_WEIGHT\<close>, \<^verbatim>\<open>sampleWeightVariable\<close>
  the name, and the role of that feature \<^verbatim>\<open>WEIGHT\<close>.
\<close>

theorem sample_weighting_reset_then_set:
  "map_of d ''weight'' = Some (JObj w) \<and>
   map_of d ''preprocessing'' = Some (JObj p) \<and>
   map_of p ''per_feature'' = Some (JObj f) \<and>
   distinct (map fst f) \<and>
   (\<forall>kv\<in>set f. \<exists>params. snd kv = JObj params \<and> ''role'' \<in> fst ` set params) \<longrightarrow>
     remove_sample_weighting (JObj d) = (None, reset_step_spec d w p f) \<and>
     (feature_name \<notin> fst ` set f \<longrightarrow>
        use_sample_weighting feature_name (JObj d) =
          (Some (ValueError (''Feature '' @ feature_name @
                             '' doesn't exist in this ML task, can't use as weight'')),
           reset_step_spec d w p f)) \<and>
     (map_of f feature_name = Some (JObj params) \<longrightarrow>
        use_sample_weighting feature_name (JObj d) =
          (None,
           JObj (AList.update ''preprocessing''
                   (JObj (AList.update ''per_feature''
                            (JObj (AList.update feature_name
                                     (JObj (AList.update ''role'' (JStr ''WEIGHT'') params))
                                     (map (\<lambda>(k, v). (k, demote_weight v)) f))) p))
                   (AList.update ''weight''
                      (JObj (AList.update ''sampleWeightVariable'' (JStr feature_name)
                               (AList.update ''weightMethod'' (JStr ''SAMPLE_WEIGHT'') w))) d))) \<and>
        load_at [JStr ''weight'', JStr ''weightMethod'']
          (snd (use_sample_weighting feature_name (JObj d))) = Inr (JStr ''SAMPLE_WEIGHT'') \<and>
        load_at [JStr ''weight'', JStr ''sampleWeightVariable'']
          (snd (use_sample_weighting feature_name (JObj d))) = Inr (JStr feature_name) \<and>
        load_at [JStr ''preprocessing'', JStr ''per_feature'', JStr feature_name, JStr ''role'']
          (snd (use_sample_weighting feature_name (JObj d))) = Inr (JStr ''WEIGHT'')) \<and>
     load_at [JStr ''weight'', JStr ''weightMethod''] (reset_step_spec d w p f) =
       Inr (JStr ''NO_WEIGHTING'') \<and>
     load_at [JStr ''weight'', JStr ''sampleWeightVariable''] (reset_step_spec d w p f) =
       load_at [JStr ''weight'', JStr ''sampleWeightVariable''] (JObj d)"
proof (intro impI)
  assume "map_of d ''weight'' = Some (JObj w) \<and>
   map_of d ''preprocessing'' = Some (JObj p) \<and>
   map_of p ''per_feature'' = Some (JObj f) \<and>
   distinct (map fst f) \<and>
   (\<forall>kv\<in>set f. \<exists>params. snd kv = JObj params \<and> ''role'' \<in> fst ` set params)"
  then have wf: "map_of d ''weight'' = Some (JObj w)"
      "map_of d ''preprocessing'' = Some (JObj p)"
      "map_of p ''per_feature'' = Some (JObj f)"
      "distinct (map fst f)"
      "\<forall>kv\<in>set f. \<exists>params. snd kv = JObj params \<and> ''role'' \<in> fst ` set params"
    by simp_all
  show "remove_sample_weighting (JObj d) = (None, reset_step_spec d w p f) \<and>
     (feature_name \<notin> fst ` set f \<longrightarrow>
        use_sample_weighting feature_name (JObj d) =
          (Some (ValueError (''Feature '' @ feature_name @
                             '' doesn't exist in this ML task, can't use as weight'')),
           reset_step_spec d w p f)) \<and>
     (map_of f feature_name = Some (JObj params) \<longrightarrow>
        use_sample_weighting feature_name (JObj d) =
          (None,
           JObj (AList.update ''preprocessing''
                   (JObj (AList.update ''per_feature''
                            (JObj (AList.update feature_name
                                     (JObj (AList.update ''role'' (JStr ''WEIGHT'') params))
                                     (map (\<lambda>(k, v). (k, demote_weight v)) f))) p))
                   (AList.update ''weight''
                      (JObj (AList.update ''sampleWeightVariable'' (JStr feature_name)
                               (AList.update ''weightMethod'' (JStr ''SAMPLE_WEIGHT'') w))) d))) \<and>
        load_at [JStr ''weight'', JStr ''weightMethod'']
          (snd (use_sample_weighting feature_name (JObj d))) = Inr (JStr ''SAMPLE_WEIGHT'') \<and>
        load_at [JStr ''weight'', JStr ''sampleWeightVariable'']
          (snd (use_sample_weighting feature_name (JObj d))) = Inr (JStr feature_name) \<and>
        load_at [JStr ''preprocessing'', JStr ''per_feature'', JStr feature_name, JStr ''role'']
          (snd (use_sample_weighting feature_name (JObj d))) = Inr (JStr ''WEIGHT'')) \<and>
     load_at [JStr ''weight'', JStr ''weightMethod''] (reset_step_spec d w p f) =
       Inr (JStr ''NO_WEIGHTING'') \<and>
     load_at [JStr ''weight'', JStr ''sampleWeightVariable''] (reset_step_spec d w p f) =
       load_at [JStr ''weight'', JStr ''sampleWeightVariable''] (JObj d)"
  proof (intro conjI impI)
    show "remove_sample_weighting (JObj d) = (None, reset_step_spec d w p f)"
      by (rule remove_sample_weighting_spec [OF wf])
  next
    assume "feature_name \<notin> fst ` set f"
    then show "use_sample_weighting feature_name (JObj d) =
          (Some (ValueError (''Feature '' @ feature_name @
                             '' doesn't exist in this ML task, can't use as weight'')),
           reset_step_spec d w p f)"
      by (rule use_sample_weighting_absent [OF wf])
  next
    assume h: "map_of f feature_name = Some (JObj params)"
    note run = use_sample_weighting_present [OF wf h]
    show "use_sample_weighting feature_name (JObj d) =
          (None,
           JObj (AList.update ''preprocessing''
                   (JObj (AList.update ''per_feature''
                            (JObj (AList.update feature_name
                                     (JObj (AList.update ''role'' (JStr ''WEIGHT'') params))
                                     (map (\<lambda>(k, v). (k, demote_weight v)) f))) p))
                   (AList.update ''weight''
                      (JObj (AList.update ''sampleWeightVariable'' (JStr feature_name)
                               (AList.update ''weightMethod'' (JStr ''SAMPLE_WEIGHT'') w))) d)))"
      by (rule run)
    show "load_at [JStr ''weight'', JStr ''weightMethod'']
          (snd (use_sample_weighting feature_name (JObj d))) = Inr (JStr ''SAMPLE_WEIGHT'')"
      by (simp add: run AList.update_conv' del: map_map)
    show "load_at [JStr ''weight'', JStr ''sampleWeightVariable'']
          (snd (use_sample_weighting feature_name (JObj d))) = Inr (JStr feature_name)"
      by (simp add: run AList.update_conv' del: map_map)
    show "load_at [JStr ''preprocessing'', JStr ''per_feature'', JStr feature_name, JStr ''role'']
          (snd (use_sample_weighting feature_name (JObj d))) = Inr (JStr ''WEIGHT'')"
      by (simp add: run AList.update_conv' del: map_map)
  next
    show "load_at [JStr ''weight'', JStr ''weightMethod''] (reset_step_spec d w p f) =
       Inr (JStr ''NO_WEIGHTING'')"
      by (simp add: reset_step_spec_def AList.update_conv' del: map_map)
  next
    show "load_at [JStr ''weight'', JStr ''sampleWeightVariable''] (reset_step_spec d w p f) =
       load_at [JStr ''weight'', JStr ''sampleWeightVariable''] (JObj d)"
      using wf(1) by (simp add: reset_step_spec_def AList.update_conv' del: map_map)
  qed
qed

text \<open>
  The theorem on settings that weight by the feature \<^verbatim>\<open>w\<close>: a call with an
  unknown feature, and a call with the feature \<^verbatim>\<open>age\<close>.
\<close>

theorem sample_weighting_reset_then_set_witness:
  "use_sample_weighting ''f1''
     (JObj [(''weight'', JObj [(''weightMethod'', JStr ''SAMPLE_WEIGHT''),
                               (''sampleWeightVariable'', JStr ''w'')]),
            (''preprocessing'', JObj [(''per_feature'', JObj
               [(''w'', JObj [(''role'', JStr ''WEIGHT''), (''type'', JStr ''NUMERIC'')]),
                (''age'', JObj [(''role'', JStr ''INPUT''), (''type'', JStr ''NUMERIC'')])])])]) =
   (Some (ValueError ''Feature f1 doesn't exist in this ML task, can't use as weight''),
    JObj [(''weight'', JObj [(''weightMethod'', JStr ''NO_WEIGHTING''),
                             (''sampleWeightVariable'', JStr ''w'')]),
          (''preprocessing'', JObj [(''per_feature'', JObj
             [(''w'', JObj [(''role'', JStr ''INPUT''), (''type'', JStr ''NUMERIC'')]),
              (''age'', JObj [(''role'', JStr ''INPUT''), (''type'', JStr ''NUMERIC'')])])])]) \<and>
   use_sample_weighting ''age''
     (JObj [(''weight'', JObj [(''weightMethod'', JStr ''SAMPLE_WEIGHT''),
                               (''sampleWeightVariable'', JStr ''w'')]),
            (''preprocessing'', JObj [(''per_feature'', JObj
               [(''w'', JObj [(''role'', JStr ''WEIGHT''), (''type'', JStr ''NUMERIC'')]),
                (''age'', JObj [(''role'', JStr ''INPUT''), (''type'', JStr ''NUMERIC'')])])])]) =
   (None,
    JObj [(''weight'', JObj [(''weightMethod'', JStr ''SAMPLE_WEIGHT''),
                             (''sampleWeightVariable'', JStr ''age'')]),
          (''preprocessing'', JObj [(''per_feature'', JObj
             [(''w'', JObj [(''role'', JStr ''INPUT''), (''type'', JStr ''NUMERIC'')]),
              (''age'', JObj [(''role'', JStr ''WEIGHT''), (''type'', JStr ''NUMERIC'')])])])])"
  using sample_weighting_reset_then_set
     [where feature_name = "''f1''"
        and d = "[(''weight'', JObj [(''weightMethod'', JStr ''SAMPLE_WEIGHT''),
                               (''sampleWeightVariable'', JStr ''w'')]),
            (''preprocessing'', JObj [(''per_feature'', JObj
               [(''w'', JObj [(''role'', JStr ''WEIGHT''), (''type'', JStr ''NUMERIC'')]),
                (''age'', JObj [(''role'', JStr ''INPUT''), (''type'', JStr ''NUMERIC'')])])])]"
        and w = "[(''weightMethod'', JStr ''SAMPLE_WEIGHT''),
                  (''sampleWeightVariable'', JStr ''w'')]"
        and p = "[(''per_feature'', JObj
               [(''w'', JObj [(''role'', JStr ''WEIGHT''), (''type'', JStr ''NUMERIC'')]),
                (''age'', JObj [(''role'', JStr ''INPUT''), (''type'', JStr ''NUMERIC'')])])]"
        and f = "[(''w'', JObj [(''role'', JStr ''WEIGHT''), (''type'', JStr ''NUMERIC'')]),
                (''age'', JObj [(''role'', JStr ''INPUT''), (''type'', JStr ''NUMERIC'')])]"]
    sample_weighting_reset_then_set
     [where feature_name = "''age''"
        and params = "[(''role'', JStr ''INPUT''), (''type'', JStr ''NUMERIC'')]"
        and d = "[(''weight'', JObj [(''weightMethod'', JStr ''SAMPLE_WEIGHT''),
                               (''sampleWeightVariable'', JStr ''w'')]),
            (''preprocessing'', JObj [(''per_feature'', JObj
               [(''w'', JObj [(''role'', JStr ''WEIGHT''), (''type'', JStr ''NUMERIC'')]),
                (''age'', JObj [(''role'', JStr ''INPUT''), (''type'', JStr ''NUMERIC'')])])])]"
        and w = "[(''weightMethod'', JStr ''SAMPLE_WEIGHT''),
                  (''sampleWeightVariable'', JStr ''w'')]"
        and p = "[(''per_feature'', JObj
               [(''w'', JObj [(''role'', JStr ''WEIGHT''), (''type'', JStr ''NUMERIC'')]),
                (''age'', JObj [(''role'', JStr ''INPUT''), (''type'', JStr ''NUMERIC'')])])]"
        and f = "[(''w'', JObj [(''role'', JStr ''WEIGHT''), (''type'', JStr ''NUMERIC'')]),
                (''age'', JObj [(''role'', JStr ''INPUT''), (''type'', JStr ''NUMERIC'')])]"]
  by (simp add: reset_step_spec_def)

section \<open>ROC data and the feature loop\<close>

text \<open>
  Claim C3 against the code. Details that hold no \<^verbatim>\<open>rocVizData\<close> (with or without
  a \<^verbatim>\<open>perf\<close> entry) do not make \<^verbatim>\<open>get_roc_curve_data\<close> raise: the
  default of the lookup, an empty mapping, is returned. Only an explicit
  \<^verbatim>\<open>None\<close> under \<^verbatim>\<open>perf.rocVizData\<close> raises the validation error.
\<close>

theorem roc_absent_returns_empty:
  "get_roc_curve_data (JObj [(''perf'', JObj [(''metrics'', JObj [(''r2'', JInt 1)])])]) =
     Inr (JObj []) \<and>
   get_roc_curve_data (JObj []) = Inr (JObj []) \<and>
   get_roc_curve_data (JObj [(''perf'', JObj [(''rocVizData'', JNull)])]) =
     Inl (ValueError ''This model does not have ROC visualization data'')"
  by (simp add: get_roc_curve_data_def)

text \<open>
  Claim C4 against the code. With the identity transform and the type filter
  \<^verbatim>\<open>NUMERIC\<close>, the target feature and the feature of another type are not kept
  with their params: the rebuilt \<^verbatim>\<open>per_feature\<close> holds the transformed feature
  only.
\<close>

theorem foreach_feature_drops_skipped:
  "foreach_feature (\<lambda>feature_name params. params) (Some ''NUMERIC'')
     (JObj [(''preprocessing'', JObj [(''per_feature'', JObj
        [(''churn'', JObj [(''role'', JStr ''TARGET''), (''type'', JStr ''CATEGORY'')]),
         (''age'', JObj [(''role'', JStr ''INPUT''), (''type'', JStr ''NUMERIC'')]),
         (''city'', JObj [(''role'', JStr ''INPUT''), (''type'', JStr ''CATEGORY'')])])])]) =
   (None,
    JObj [(''preprocessing'', JObj [(''per_feature'', JObj
        [(''age'', JObj [(''role'', JStr ''INPUT''), (''type'', JStr ''NUMERIC'')])])])])"
  by (simp add: foreach_feature_def assign_def)

section \<open>Performance metrics\<close>

lemma strip_keys_dict:
  "c < length h \<Longrightarrow> h ! c = JObj d \<Longrightarrow>
   strip_keys ks c h = (None, h[c := JObj (filter (\<lambda>kv. fst kv \<notin> set ks) d)])"
proof (induction ks arbitrary: h d)
  case Nil
  then show ?case by (simp add: list_update_same_conv [THEN iffD2])
next
  case (Cons x xs)
  show ?case
  proof (cases "x \<in> fst ` set d")
    case True
    have step: "strip_keys (x # xs) c h = strip_keys xs c (h[c := JObj (AList.delete x d)])"
      using True Cons.prems by simp
    have "strip_keys xs c (h[c := JObj (AList.delete x d)]) =
          (None, (h[c := JObj (AList.delete x d)])
                   [c := JObj (filter (\<lambda>kv. fst kv \<notin> set xs) (AList.delete x d))])"
      using Cons.prems by (intro Cons.IH) simp_all
    moreover have "filter (\<lambda>kv. fst kv \<notin> set xs) (AList.delete x d) =
                   filter (\<lambda>kv. fst kv \<notin> set (x # xs)) d"
      by (auto simp add: AList.delete_eq intro: filter_cong)
    ultimately show ?thesis using step by simp
  next
    case False
    have step: "strip_keys (x # xs) c h = strip_keys xs c h"
      using False Cons.prems by simp
    have "filter (\<lambda>kv. fst kv \<notin> set xs) d = filter (\<lambda>kv. fst kv \<notin> set (x # xs)) d"
      using False by (auto intro!: filter_cong)
    then show ?thesis using step Cons.IH [OF Cons.prems] by simp
  qed
qed

lemma performance_metrics_dict:
  assumes "a < length h" "h ! a = JObj d"
  shows "performance_metrics ks a h =
     (Inr (length h), h @ [JObj (filter (\<lambda>kv. fst kv \<notin> set ks) d)])"
proof -
  have "strip_keys ks (length h) (h @ [JObj d]) =
        (None, (h @ [JObj d])[length h := JObj (filter (\<lambda>kv. fst kv \<notin> set ks) d)])"
    by (rule strip_keys_dict) simp_all
  then show ?thesis using assms by (simp add: performance_metrics_def deepcopy_def)
qed

lemma performance_metrics_again:
  assumes "a < length h" "h ! a = JObj d"
  shows "performance_metrics ks a (snd (performance_metrics ks a h)) =
     (Inr (Suc (length h)),
      h @ [JObj (filter (\<lambda>kv. fst kv \<notin> set ks) d),
           JObj (filter (\<lambda>kv. fst kv \<notin> set ks) d)])"
proof -
  let ?h1 = "h @ [JObj (filter (\<lambda>kv. fst kv \<notin> set ks) d)]"
  have "a < length ?h1" "?h1 ! a = JObj d"
    using assms by (simp_all add: nth_append)
  from performance_metrics_dict [OF this, of ks] performance_metrics_dict [OF assms, of ks]
  show ?thesis by simp
qed

lemma map_of_stripped:
  "map_of (filter (\<lambda>kv. fst kv \<notin> set ks) d) k = (if k \<in> set ks then None else map_of d k)"
  by (induction d) auto

text \<open>
  Claim C10. With the wrapper's snippet, a mapping, at address \<open>a\<close> of the store, both
  \<^verbatim>\<open>get_performance_metrics\<close> methods return a new object: the snippet without the
  bookkeeping keys of the method, every other key with the value it has in the snippet.
  The snippet itself is the same after the call, and a second call returns another new
  object with the same contents.
\<close>

theorem performance_metrics_read_only:
  "a < length h \<and> h ! a = JObj d \<longrightarrow>
     prediction_get_performance_metrics a h =
       (Inr (length h),
        h @ [JObj (filter (\<lambda>kv. fst kv \<notin> set prediction_bookkeeping_keys) d)]) \<and>
     clustering_get_performance_metrics a h =
       (Inr (length h),
        h @ [JObj (filter (\<lambda>kv. fst kv \<notin> set clustering_bookkeeping_keys) d)]) \<and>
     snd (prediction_get_performance_metrics a h) ! a = h ! a \<and>
     snd (clustering_get_performance_metrics a h) ! a = h ! a \<and>
     prediction_get_performance_metrics a (snd (prediction_get_performance_metrics a h)) =
       (Inr (Suc (length h)),
        h @ [JObj (filter (\<lambda>kv. fst kv \<notin> set prediction_bookkeeping_keys) d),
             JObj (filter (\<lambda>kv. fst kv \<notin> set prediction_bookkeeping_keys) d)]) \<and>
     clustering_get_performance_metrics a (snd (clustering_get_performance_metrics a h)) =
       (Inr (Suc (length h)),
        h @ [JObj (filter (\<lambda>kv. fst kv \<notin> set clustering_bookkeeping_keys) d),
             JObj (filter (\<lambda>kv. fst kv \<notin> set clustering_bookkeeping_keys) d)]) \<and>
     map_of (filter (\<lambda>kv. fst kv \<notin> set prediction_bookkeeping_keys) d) k =
       (if k \<in> set prediction_bookkeeping_keys then None else map_of d k) \<and>
     map_of (filter (\<lambda>kv. fst kv \<notin> set clustering_bookkeeping_keys) d) k =
       (if k \<in> set clustering_bookkeeping_keys then None else map_of d k)"
proof (intro impI)
  assume "a < length h \<and> h ! a = JObj d"
  then have a: "a < length h" and d: "h ! a = JObj d" by simp_all
  note p = performance_metrics_dict [OF a d]
  note q = performance_metrics_again [OF a d]
  show "prediction_get_performance_metrics a h =
       (Inr (length h),
        h @ [JObj (filter (\<lambda>kv. fst kv \<notin> set prediction_bookkeeping_keys) d)]) \<and>
     clustering_get_performance_metrics a h =
       (Inr (length h),
        h @ [JObj (filter (\<lambda>kv. fst kv \<notin> set clustering_bookkeeping_keys) d)]) \<and>
     snd (prediction_get_performance_metrics a h) ! a = h ! a \<and>
     snd (clustering_get_performance_metrics a h) ! a = h ! a \<and>
     prediction_get_performance_metrics a (snd (prediction_get_performance_metrics a h)) =
       (Inr (Suc (length h)),
        h @ [JObj (filter (\<lambda>kv. fst kv \<notin> set prediction_bookkeeping_keys) d),
             JObj (filter (\<lambda>kv. fst kv \<notin> set prediction_bookkeeping_keys) d)]) \<and>
     clustering_get_performance_metrics a (snd (clustering_get_performance_metrics a h)) =
       (Inr (Suc (length h)),
        h @ [JObj (filter (\<lambda>kv. fst kv \<notin> set clustering_bookkeeping_keys) d),
             JObj (filter (\<lambda>kv. fst kv \<notin> set clustering_bookkeeping_keys) d)]) \<and>
     map_of (filter (\<lambda>kv. fst kv \<notin> set prediction_bookkeeping_keys) d) k =
       (if k \<in> set prediction_bookkeeping_keys then None else map_of d k) \<and>
     map_of (filter (\<lambda>kv. fst kv \<notin> set clustering_bookkeeping_keys) d) k =
       (if k \<in> set clustering_bookkeeping_keys then None else map_of d k)"
    using a p [of prediction_bookkeeping_keys] p [of clustering_bookkeeping_keys]
      q [of prediction_bookkeeping_keys] q [of clustering_bookkeeping_keys]
    by (simp add: prediction_get_performance_metrics_def
        clustering_get_performance_metrics_def map_of_stripped nth_append)
qed

text \<open>
  The theorem at a prediction snippet and at a clustering snippet.
\<close>

theorem performance_metrics_read_only_witness:
  "prediction_get_performance_metrics 0
     [JObj [(''auc'', JInt 1), (''algorithm'', JStr ''RANDOM_FOREST_CLASSIFICATION''),
            (''trainInfo'', JObj []), (''f1'', JInt 0)]] =
   (Inr 1,
    [JObj [(''auc'', JInt 1), (''algorithm'', JStr ''RANDOM_FOREST_CLASSIFICATION''),
           (''trainInfo'', JObj []), (''f1'', JInt 0)],
     JObj [(''auc'', JInt 1), (''f1'', JInt 0)]]) \<and>
   clustering_get_performance_metrics 0
     [JObj [(''silhouette'', JInt 1), (''facts'', JObj []), (''sessionId'', JStr ''s1'')]] =
   (Inr 1,
    [JObj [(''silhouette'', JInt 1), (''facts'', JObj []), (''sessionId'', JStr ''s1'')],
     JObj [(''silhouette'', JInt 1)]])"
  using performance_metrics_read_only
     [where a = 0
        and h = "[JObj [(''auc'', JInt 1), (''algorithm'', JStr ''RANDOM_FOREST_CLASSIFICATION''),
            (''trainInfo'', JObj []), (''f1'', JInt 0)]]"
        and d = "[(''auc'', JInt 1), (''algorithm'', JStr ''RANDOM_FOREST_CLASSIFICATION''),
            (''trainInfo'', JObj []), (''f1'', JInt 0)]"]
    performance_metrics_read_only
     [where a = 0
        and h = "[JObj [(''silhouette'', JInt 1), (''facts'', JObj []), (''sessionId'', JStr ''s1'')]]"
        and d = "[(''silhouette'', JInt 1), (''facts'', JObj []), (''sessionId'', JStr ''s1'')]"]
  by (simp add: prediction_bookkeeping_keys_def clustering_bookkeeping_keys_def)

section \<open>Trained-model details of a task\<close>

text \<open>
  Claim C6. When the details request answers a mapping, and the snippets request that
  follows it, for the same id, answers a mapping that holds the id, then
  \<^verbatim>\<open>get_trained_model_details\<close> returns the clustering wrapper if the details hold
  the key \<^verbatim>\<open>facts\<close> and the prediction wrapper if they do not; either wrapper
  holds the details and the snippet found under the id.
\<close>

theorem details_wrapper_by_facts:
  "c hist (details_request t model_id) = Inr (JObj ret) \<and>
   c (hist @ [Sent (details_request t model_id)])
     (snippets_request t (JObj [(''modelsIds'', JList [JStr model_id])])) = Inr (JObj snippets) \<and>
   map_of snippets model_id = Some snippet \<longrightarrow>
     get_trained_model_details c t model_id hist =
       (Inr (if ''facts'' \<in> fst ` set ret
             then DSSTrainedClusteringModelDetails (JObj ret) snippet None None
                    (Some t) (Some model_id)
             else DSSTrainedPredictionModelDetails (JObj ret) snippet None None
                    (Some t) (Some model_id)),
        hist @ [Sent (details_request t model_id),
                Sent (snippets_request t (JObj [(''modelsIds'', JList [JStr model_id])]))])"
  by (simp add: get_trained_model_details_def get_trained_model_snippet_def perform_json_def)

text \<open>
  The theorem at a server that answers details with \<^verbatim>\<open>facts\<close>, and at one that
  answers details without.
\<close>

theorem details_wrapper_by_facts_witness:
  "get_trained_model_details
     (\<lambda>hist req. Inr (JObj (if hist = [] then [(''facts'', JObj []), (''userMeta'', JObj [])]
                              else [(''m1'', JObj [(''algorithm'', JStr ''KMEANS'')])])))
     \<lparr>project_key = ''P'', analysis_id = ''a1'', mltask_id = ''t1''\<rparr> ''m1'' [] =
   (Inr (DSSTrainedClusteringModelDetails (JObj [(''facts'', JObj []), (''userMeta'', JObj [])])
           (JObj [(''algorithm'', JStr ''KMEANS'')]) None None
           (Some \<lparr>project_key = ''P'', analysis_id = ''a1'', mltask_id = ''t1''\<rparr>) (Some ''m1'')),
    [Sent (Request ''GET'' ''/projects/P/models/lab/a1/t1/models/m1/details'' None),
     Sent (Request ''GET'' ''/projects/P/models/lab/a1/t1/models-snippets''
             (Some (JObj [(''modelsIds'', JList [JStr ''m1''])])))]) \<and>
   get_trained_model_details
     (\<lambda>hist req. Inr (JObj (if hist = [] then [(''perf'', JObj []), (''userMeta'', JObj [])]
                              else [(''m1'', JObj [(''algorithm'', JStr ''XGBOOST'')])])))
     \<lparr>project_key = ''P'', analysis_id = ''a1'', mltask_id = ''t1''\<rparr> ''m1'' [] =
   (Inr (DSSTrainedPredictionModelDetails (JObj [(''perf'', JObj []), (''userMeta'', JObj [])])
           (JObj [(''algorithm'', JStr ''XGBOOST'')]) None None
           (Some \<lparr>project_key = ''P'', analysis_id = ''a1'', mltask_id = ''t1''\<rparr>) (Some ''m1'')),
    [Sent (Request ''GET'' ''/projects/P/models/lab/a1/t1/models/m1/details'' None),
     Sent (Request ''GET'' ''/projects/P/models/lab/a1/t1/models-snippets''
             (Some (JObj [(''modelsIds'', JList [JStr ''m1''])])))])"
  using details_wrapper_by_facts
     [where c = "\<lambda>hist req. Inr (JObj (if hist = [] then [(''facts'', JObj []), (''userMeta'', JObj [])]
                              else [(''m1'', JObj [(''algorithm'', JStr ''KMEANS'')])]))"
        and t = "\<lparr>project_key = ''P'', analysis_id = ''a1'', mltask_id = ''t1''\<rparr>"
        and model_id = "''m1''" and hist = "[]"
        and ret = "[(''facts'', JObj []), (''userMeta'', JObj [])]"
        and snippets = "[(''m1'', JObj [(''algorithm'', JStr ''KMEANS'')])]"
        and snippet = "JObj [(''algorithm'', JStr ''KMEANS'')]"]
    details_wrapper_by_facts
     [where c = "\<lambda>hist req. Inr (JObj (if hist = [] then [(''perf'', JObj []), (''userMeta'', JObj [])]
                              else [(''m1'', JObj [(''algorithm'', JStr ''XGBOOST'')])]))"
        and t = "\<lparr>project_key = ''P'', analysis_id = ''a1'', mltask_id = ''t1''\<rparr>"
        and model_id = "''m1''" and hist = "[]"
        and ret = "[(''perf'', JObj []), (''userMeta'', JObj [])]"
        and snippets = "[(''m1'', JObj [(''algorithm'', JStr ''XGBOOST'')])]"
        and snippet = "JObj [(''algorithm'', JStr ''XGBOOST'')]"]
  by (simp add: details_request_def snippets_request_def lab_url_def)

section \<open>Polling\<close>

lemma rounds_Suc: "rounds req ms (Suc n) = Sent req # Slept ms # rounds req ms n"
  by (simp add: rounds_def)

lemma rounds_0: "rounds req ms 0 = []"
  by (simp add: rounds_def)

lemma train_round_again:
  assumes "c hist (status_request t) = Inr (JObj st)"
    and "map_of st ''training'' = Some (JBool True)"
  shows "wait_train_complete c t hist =
         wait_train_complete c t (hist @ [Sent (status_request t), Slept 2000])"
  using assms
  by (subst wait_train_complete.simps) (simp add: get_status_def perform_json_def sleep_def)

lemma train_round_last:
  assumes "c hist (status_request t) = Inr (JObj st)"
    and "map_of st ''training'' = Some (JBool False)"
  shows "wait_train_complete c t hist = Some (Inr (), hist @ [Sent (status_request t)])"
  using assms
  by (subst wait_train_complete.simps) (simp add: get_status_def perform_json_def sleep_def)

lemma train_returns:
  assumes "\<forall>i<n. \<exists>st. c (hist @ rounds (status_request t) 2000 i) (status_request t) = Inr (JObj st) \<and>
                  map_of st ''training'' = Some (JBool True)"
    and "c (hist @ rounds (status_request t) 2000 n) (status_request t) = Inr (JObj st)"
    and "map_of st ''training'' = Some (JBool False)"
  shows "wait_train_complete c t hist =
         Some (Inr (), hist @ rounds (status_request t) 2000 n @ [Sent (status_request t)])"
  using assms
proof (induction n arbitrary: hist)
  case 0
  then show ?case by (simp add: rounds_0 train_round_last)
next
  case (Suc n)
  let ?h = "hist @ [Sent (status_request t), Slept 2000]"
  from Suc.prems(1) have "\<exists>st. c hist (status_request t) = Inr (JObj st) \<and>
                  map_of st ''training'' = Some (JBool True)"
    by (auto simp add: rounds_0 dest: spec [of _ 0])
  then have first: "wait_train_complete c t hist = wait_train_complete c t ?h"
    using train_round_again by blast
  have "\<forall>i<n. \<exists>st. c (?h @ rounds (status_request t) 2000 i) (status_request t) = Inr (JObj st) \<and>
                  map_of st ''training'' = Some (JBool True)"
  proof (intro allI impI)
    fix i assume "i < n"
    then have "Suc i < Suc n" by simp
    with Suc.prems(1) show "\<exists>st. c (?h @ rounds (status_request t) 2000 i) (status_request t) = Inr (JObj st) \<and>
                  map_of st ''training'' = Some (JBool True)"
      by (auto simp add: rounds_Suc dest!: spec [of _ "Suc i"])
  qed
  moreover have "c (?h @ rounds (status_request t) 2000 n) (status_request t) = Inr (JObj st)"
    using Suc.prems(2) by (simp add: rounds_Suc)
  ultimately have "wait_train_complete c t ?h =
         Some (Inr (), ?h @ rounds (status_request t) 2000 n @ [Sent (status_request t)])"
    using Suc.prems(3) by (intro Suc.IH)
  with first show ?case by (simp add: rounds_Suc)
qed

lemma train_never_returns:
  assumes "\<forall>i. \<exists>st. c (hist @ rounds (status_request t) 2000 i) (status_request t) = Inr (JObj st) \<and>
                  map_of st ''training'' = Some (JBool True)"
  shows "wait_train_complete c t hist = None"
proof (rule ccontr)
  assume "wait_train_complete c t hist \<noteq> None"
  then obtain r where r: "wait_train_complete c t hist = Some r" by auto
  have "\<not> (\<forall>i. \<exists>st. c (hist @ rounds (status_request t) 2000 i) (status_request t) = Inr (JObj st) \<and>
                  map_of st ''training'' = Some (JBool True))"
  proof (rule wait_train_complete.raw_induct
      [where P = "\<lambda>c t hist r. \<not> (\<forall>i. \<exists>st. c (hist @ rounds (status_request t) 2000 i)
                       (status_request t) = Inr (JObj st) \<and>
                     map_of st ''training'' = Some (JBool True))", OF _ r])
    fix wait c t hist r
    assume IH: "\<And>c t hist r. wait c t hist = Some r \<Longrightarrow>
                 \<not> (\<forall>i. \<exists>st. c (hist @ rounds (status_request t) 2000 i)
                       (status_request t) = Inr (JObj st) \<and>
                     map_of st ''training'' = Some (JBool True))"
      and body: "(case get_status c t hist of
                   (Inl e, hist1) \<Rightarrow> Some (Inl e, hist1)
                 | (Inr status, hist1) \<Rightarrow>
                     (case py_get status ''training'' (JStr ''???'') of
                        Inl e \<Rightarrow> Some (Inl e, hist1)
                      | Inr v \<Rightarrow>
                          if py_eq_False v then Some (Inr (), hist1)
                          else wait c t (sleep 2000 hist1))) = Some r"
    show "\<not> (\<forall>i. \<exists>st. c (hist @ rounds (status_request t) 2000 i)
                       (status_request t) = Inr (JObj st) \<and>
                     map_of st ''training'' = Some (JBool True))"
    proof
      assume all: "\<forall>i. \<exists>st. c (hist @ rounds (status_request t) 2000 i) (status_request t) = Inr (JObj st) \<and>
                  map_of st ''training'' = Some (JBool True)"
      then obtain st where st: "c hist (status_request t) = Inr (JObj st)"
          "map_of st ''training'' = Some (JBool True)"
        by (auto simp add: rounds_0 dest: spec [of _ 0])
      let ?h = "hist @ [Sent (status_request t), Slept 2000]"
      from body st have "wait c t ?h = Some r"
        by (simp add: get_status_def perform_json_def sleep_def)
      then have "\<not> (\<forall>i. \<exists>st. c (?h @ rounds (status_request t) 2000 i) (status_request t) = Inr (JObj st) \<and>
                  map_of st ''training'' = Some (JBool True))"
        by (rule IH)
      moreover have "\<forall>i. \<exists>st. c (?h @ rounds (status_request t) 2000 i) (status_request t) = Inr (JObj st) \<and>
                  map_of st ''training'' = Some (JBool True)"
      proof
        fix i
        from all have "\<exists>st. c (hist @ rounds (status_request t) 2000 (Suc i)) (status_request t) = Inr (JObj st) \<and>
                  map_of st ''training'' = Some (JBool True)" by blast
        then show "\<exists>st. c (?h @ rounds (status_request t) 2000 i) (status_request t) = Inr (JObj st) \<and>
                  map_of st ''training'' = Some (JBool True)"
          by (simp add: rounds_Suc)
      qed
      ultimately show False by contradiction
    qed
  qed
  with assms show False by blast
qed

lemma guess_round_again:
  assumes "c hist (status_request t) = Inr (JObj st)"
    and "map_of st ''guessing'' = Some (JBool True)"
  shows "wait_guess_complete c t hist =
         wait_guess_complete c t (hist @ [Sent (status_request t), Slept 200])"
  using assms
  by (subst wait_guess_complete.simps) (simp add: get_status_def perform_json_def sleep_def)

lemma guess_round_last:
  assumes "c hist (status_request t) = Inr (JObj st)"
    and "map_of st ''guessing'' = Some (JBool False)"
  shows "wait_guess_complete c t hist = Some (Inr (), hist @ [Sent (status_request t)])"
  using assms
  by (subst wait_guess_complete.simps) (simp add: get_status_def perform_json_def sleep_def)

lemma guess_returns:
  assumes "\<forall>i<n. \<exists>st. c (hist @ rounds (status_request t) 200 i) (status_request t) = Inr (JObj st) \<and>
                  map_of st ''guessing'' = Some (JBool True)"
    and "c (hist @ rounds (status_request t) 200 n) (status_request t) = Inr (JObj st)"
    and "map_of st ''guessing'' = Some (JBool False)"
  shows "wait_guess_complete c t hist =
         Some (Inr (), hist @ rounds (status_request t) 200 n @ [Sent (status_request t)])"
  using assms
proof (induction n arbitrary: hist)
  case 0
  then show ?case by (simp add: rounds_0 guess_round_last)
next
  case (Suc n)
  let ?h = "hist @ [Sent (status_request t), Slept 200]"
  from Suc.prems(1) have "\<exists>st. c hist (status_request t) = Inr (JObj st) \<and>
                  map_of st ''guessing'' = Some (JBool True)"
    by (auto simp add: rounds_0 dest: spec [of _ 0])
  then have first: "wait_guess_complete c t hist = wait_guess_complete c t ?h"
    using guess_round_again by blast
  have "\<forall>i<n. \<exists>st. c (?h @ rounds (status_request t) 200 i) (status_request t) = Inr (JObj st) \<and>
                  map_of st ''guessing'' = Some (JBool True)"
  proof (intro allI impI)
    fix i assume "i < n"
    then have "Suc i < Suc n" by simp
    with Suc.prems(1) show "\<exists>st. c (?h @ rounds (status_request t) 200 i) (status_request t) = Inr (JObj st) \<and>
                  map_of st ''guessing'' = Some (JBool True)"
      by (auto simp add: rounds_Suc dest!: spec [of _ "Suc i"])
  qed
  moreover have "c (?h @ rounds (status_request t) 200 n) (status_request t) = Inr (JObj st)"
    using Suc.prems(2) by (simp add: rounds_Suc)
  ultimately have "wait_guess_complete c t ?h =
         Some (Inr (), ?h @ rounds (status_request t) 200 n @ [Sent (status_request t)])"
    using Suc.prems(3) by (intro Suc.IH)
  with first show ?case by (simp add: rounds_Suc)
qed

lemma guess_never_returns:
  assumes "\<forall>i. \<exists>st. c (hist @ rounds (status_request t) 200 i) (status_request t) = Inr (JObj st) \<and>
                  map_of st ''guessing'' = Some (JBool True)"
  shows "wait_guess_complete c t hist = None"
proof (rule ccontr)
  assume "wait_guess_complete c t hist \<noteq> None"
  then obtain r where r: "wait_guess_complete c t hist = Some r" by auto
  have "\<not> (\<forall>i. \<exists>st. c (hist @ rounds (status_request t) 200 i) (status_request t) = Inr (JObj st) \<and>
                  map_of st ''guessing'' = Some (JBool True))"
  proof (rule wait_guess_complete.raw_induct
      [where P = "\<lambda>c t hist r. \<not> (\<forall>i. \<exists>st. c (hist @ rounds (status_request t) 200 i)
                       (status_request t) = Inr (JObj st) \<and>
                     map_of st ''guessing'' = Some (JBool True))", OF _ r])
    fix wait c t hist r
    assume IH: "\<And>c t hist r. wait c t hist = Some r \<Longrightarrow>
                 \<not> (\<forall>i. \<exists>st. c (hist @ rounds (status_request t) 200 i)
                       (status_request t) = Inr (JObj st) \<and>
                     map_of st ''guessing'' = Some (JBool True))"
      and body: "(case get_status c t hist of
                   (Inl e, hist1) \<Rightarrow> Some (Inl e, hist1)
                 | (Inr status, hist1) \<Rightarrow>
                     (case py_get status ''guessing'' (JStr ''???'') of
                        Inl e \<Rightarrow> Some (Inl e, hist1)
                      | Inr v \<Rightarrow>
                          if py_eq_False v then Some (Inr (), hist1)
                          else wait c t (sleep 200 hist1))) = Some r"
    show "\<not> (\<forall>i. \<exists>st. c (hist @ rounds (status_request t) 200 i)
                       (status_request t) = Inr (JObj st) \<and>
                     map_of st ''guessing'' = Some (JBool True))"
    proof
      assume all: "\<forall>i. \<exists>st. c (hist @ rounds (status_request t) 200 i) (status_request t) = Inr (JObj st) \<and>
                  map_of st ''guessing'' = Some (JBool True)"
      then obtain st where st: "c hist (status_request t) = Inr (JObj st)"
          "map_of st ''guessing'' = Some (JBool True)"
        by (auto simp add: rounds_0 dest: spec [of _ 0])
      let ?h = "hist @ [Sent (status_request t), Slept 200]"
      from body st have "wait c t ?h = Some r"
        by (simp add: get_status_def perform_json_def sleep_def)
      then have "\<not> (\<forall>i. \<exists>st. c (?h @ rounds (status_request t) 200 i) (status_request t) = Inr (JObj st) \<and>
                  map_of st ''guessing'' = Some (JBool True))"
        by (rule IH)
      moreover have "\<forall>i. \<exists>st. c (?h @ rounds (status_request t) 200 i) (status_request t) = Inr (JObj st) \<and>
                  map_of st ''guessing'' = Some (JBool True)"
      proof
        fix i
        from all have "\<exists>st. c (hist @ rounds (status_request t) 200 (Suc i)) (status_request t) = Inr (JObj st) \<and>
                  map_of st ''guessing'' = Some (JBool True)" by blast
        then show "\<exists>st. c (?h @ rounds (status_request t) 200 i) (status_request t) = Inr (JObj st) \<and>
                  map_of st ''guessing'' = Some (JBool True)"
          by (simp add: rounds_Suc)
      qed
      ultimately show False by contradiction
    qed
  qed
  with assms show False by blast
qed


lemma fetches_of_rounds:
  "length (filter (\<lambda>e. e = Sent req) (rounds req ms n @ [Sent req])) = Suc n"
  by (induction n) (simp_all add: rounds_0 rounds_Suc)

lemma sleeps_of_rounds:
  "filter (\<lambda>e. e \<noteq> Sent req) (rounds req ms n @ [Sent req]) = replicate n (Slept ms)"
  by (induction n) (simp_all add: rounds_0 rounds_Suc)

text \<open>
  Claim C7. When the statuses fetched in rounds \<open>0\<close> to \<open>n - 1\<close> report
  \<^verbatim>\<open>training\<close> as true and the status of round \<open>n\<close> reports it as false,
  \<^verbatim>\<open>wait_train_complete\<close> returns after that fetch: its history is \<open>n\<close> rounds of
  a fetch and a sleep of 2 s, then the last fetch, that is \<open>n + 1\<close> fetches and \<open>n\<close>
  sleeps. When every status reports true, it never returns. \<^verbatim>\<open>wait_guess_complete\<close>
  does the same on \<^verbatim>\<open>guessing\<close> with sleeps of 0.2 s.
\<close>

theorem polling_returns_on_first_false:
  "((\<forall>i<n. \<exists>st. c (hist @ rounds (status_request t) 2000 i) (status_request t) = Inr (JObj st) \<and>
              map_of st ''training'' = Some (JBool True)) \<and>
    (\<exists>st. c (hist @ rounds (status_request t) 2000 n) (status_request t) = Inr (JObj st) \<and>
          map_of st ''training'' = Some (JBool False)) \<longrightarrow>
      wait_train_complete c t hist =
        Some (Inr (), hist @ rounds (status_request t) 2000 n @ [Sent (status_request t)])) \<and>
   ((\<forall>i. \<exists>st. c (hist @ rounds (status_request t) 2000 i) (status_request t) = Inr (JObj st) \<and>
            map_of st ''training'' = Some (JBool True)) \<longrightarrow>
      wait_train_complete c t hist = None) \<and>
   ((\<forall>i<n. \<exists>st. c (hist @ rounds (status_request t) 200 i) (status_request t) = Inr (JObj st) \<and>
              map_of st ''guessing'' = Some (JBool True)) \<and>
    (\<exists>st. c (hist @ rounds (status_request t) 200 n) (status_request t) = Inr (JObj st) \<and>
          map_of st ''guessing'' = Some (JBool False)) \<longrightarrow>
      wait_guess_complete c t hist =
        Some (Inr (), hist @ rounds (status_request t) 200 n @ [Sent (status_request t)])) \<and>
   ((\<forall>i. \<exists>st. c (hist @ rounds (status_request t) 200 i) (status_request t) = Inr (JObj st) \<and>
            map_of st ''guessing'' = Some (JBool True)) \<longrightarrow>
      wait_guess_complete c t hist = None) \<and>
   length (filter (\<lambda>e. e = Sent (status_request t))
             (rounds (status_request t) ms n @ [Sent (status_request t)])) = Suc n \<and>
   filter (\<lambda>e. e \<noteq> Sent (status_request t))
     (rounds (status_request t) ms n @ [Sent (status_request t)]) = replicate n (Slept ms)"
proof (intro conjI impI)
  assume "(\<forall>i<n. \<exists>st. c (hist @ rounds (status_request t) 2000 i) (status_request t) = Inr (JObj st) \<and>
              map_of st ''training'' = Some (JBool True)) \<and>
    (\<exists>st. c (hist @ rounds (status_request t) 2000 n) (status_request t) = Inr (JObj st) \<and>
          map_of st ''training'' = Some (JBool False))"
  then show "wait_train_complete c t hist =
        Some (Inr (), hist @ rounds (status_request t) 2000 n @ [Sent (status_request t)])"
    using train_returns by blast
next
  assume "\<forall>i. \<exists>st. c (hist @ rounds (status_request t) 2000 i) (status_request t) = Inr (JObj st) \<and>
            map_of st ''training'' = Some (JBool True)"
  then show "wait_train_complete c t hist = None"
    by (rule train_never_returns)
next
  assume "(\<forall>i<n. \<exists>st. c (hist @ rounds (status_request t) 200 i) (status_request t) = Inr (JObj st) \<and>
              map_of st ''guessing'' = Some (JBool True)) \<and>
    (\<exists>st. c (hist @ rounds (status_request t) 200 n) (status_request t) = Inr (JObj st) \<and>
          map_of st ''guessing'' = Some (JBool False))"
  then show "wait_guess_complete c t hist =
        Some (Inr (), hist @ rounds (status_request t) 200 n @ [Sent (status_request t)])"
    using guess_returns by blast
next
  assume "\<forall>i. \<exists>st. c (hist @ rounds (status_request t) 200 i) (status_request t) = Inr (JObj st) \<and>
            map_of st ''guessing'' = Some (JBool True)"
  then show "wait_guess_complete c t hist = None"
    by (rule guess_never_returns)
next
  show "length (filter (\<lambda>e. e = Sent (status_request t))
             (rounds (status_request t) ms n @ [Sent (status_request t)])) = Suc n"
    by (rule fetches_of_rounds)
next
  show "filter (\<lambda>e. e \<noteq> Sent (status_request t))
     (rounds (status_request t) ms n @ [Sent (status_request t)]) = replicate n (Slept ms)"
    by (rule sleeps_of_rounds)
qed

text \<open>
  The theorem at a server whose first status reports true and whose second reports
  false (two fetches, one sleep), and at a server that always reports true.
\<close>

theorem polling_returns_on_first_false_witness:
  "wait_train_complete
     (\<lambda>hist req. Inr (JObj [(''training'', JBool (length hist < 2))]))
     \<lparr>project_key = ''P'', analysis_id = ''a1'', mltask_id = ''t1''\<rparr> [] =
   Some (Inr (),
         [Sent (Request ''GET'' ''/projects/P/models/lab/a1/t1/status'' None),
          Slept 2000,
          Sent (Request ''GET'' ''/projects/P/models/lab/a1/t1/status'' None)]) \<and>
   wait_train_complete
     (\<lambda>hist req. Inr (JObj [(''training'', JBool True)]))
     \<lparr>project_key = ''P'', analysis_id = ''a1'', mltask_id = ''t1''\<rparr> [] = None \<and>
   wait_guess_complete
     (\<lambda>hist req. Inr (JObj [(''guessing'', JBool (length hist < 2))]))
     \<lparr>project_key = ''P'', analysis_id = ''a1'', mltask_id = ''t1''\<rparr> [] =
   Some (Inr (),
         [Sent (Request ''GET'' ''/projects/P/models/lab/a1/t1/status'' None),
          Slept 200,
          Sent (Request ''GET'' ''/projects/P/models/lab/a1/t1/status'' None)]) \<and>
   wait_guess_complete
     (\<lambda>hist req. Inr (JObj [(''guessing'', JBool True)]))
     \<lparr>project_key = ''P'', analysis_id = ''a1'', mltask_id = ''t1''\<rparr> [] = None"
  using polling_returns_on_first_false
     [where c = "\<lambda>hist req. Inr (JObj [(''training'', JBool (length hist < 2))])"
        and t = "\<lparr>project_key = ''P'', analysis_id = ''a1'', mltask_id = ''t1''\<rparr>"
        and hist = "[]" and n = 1]
    polling_returns_on_first_false
     [where c = "\<lambda>hist req. Inr (JObj [(''training'', JBool True)])"
        and t = "\<lparr>project_key = ''P'', analysis_id = ''a1'', mltask_id = ''t1''\<rparr>"
        and hist = "[]"]
    polling_returns_on_first_false
     [where c = "\<lambda>hist req. Inr (JObj [(''guessing'', JBool (length hist < 2))])"
        and t = "\<lparr>project_key = ''P'', analysis_id = ''a1'', mltask_id = ''t1''\<rparr>"
        and hist = "[]" and n = 1]
    polling_returns_on_first_false
     [where c = "\<lambda>hist req. Inr (JObj [(''guessing'', JBool True)])"
        and t = "\<lparr>project_key = ''P'', analysis_id = ''a1'', mltask_id = ''t1''\<rparr>"
        and hist = "[]"]
  by (simp add: rounds_def status_request_def lab_url_def)

section \<open>Trained model ids\<close>

lemma filter_raising_total:
  "\<forall>x\<in>set xs. \<exists>b. p x = Inr b \<Longrightarrow>
   filter_raising p xs = Inr (filter (\<lambda>x. p x = Inr True) xs)"
  by (induction xs) auto

lemma map_raising_total:
  "list_all2 (\<lambda>x y. f x = Inr y) xs ys \<Longrightarrow> map_raising f xs = Inr ys"
  by (induction xs ys rule: list_all2_induct) auto

text \<open>
  Without an algorithm the call returns the \<^verbatim>\<open>id\<close> of every entry, or of the
  entries of the session: the session condition compares the entry's
  \<^verbatim>\<open>fullModelId.sessionId\<close>, or the empty string when either key is missing, with
  the session id.
\<close>

lemma in_session_dict:
  "map_of e ''fullModelId'' = Some (JObj f) \<Longrightarrow> map_of f ''sessionId'' = Some v \<Longrightarrow>
   in_session sid (JObj e) = Inr (v = JStr sid)"
  by (simp add: in_session_def)

lemma in_session_no_session:
  "map_of e ''fullModelId'' = Some (JObj f) \<Longrightarrow> map_of f ''sessionId'' = None \<Longrightarrow>
   in_session sid (JObj e) = Inr (sid = [])"
  by (auto simp add: in_session_def)

lemma in_session_no_full_id:
  "map_of e ''fullModelId'' = None \<Longrightarrow> in_session sid (JObj e) = Inr (sid = [])"
  by (auto simp add: in_session_def)

lemma ids_unfiltered:
  assumes "c hist (status_request t) = Inr (JObj st)"
    and "map_of st ''fullModelIds'' = Some (JList fmis)"
    and "list_all2 (\<lambda>x i. py_getitem x (JStr ''id'') = Inr i) fmis ids"
  shows "get_trained_models_ids c t None None hist = (Inr ids, hist @ [Sent (status_request t)])"
  using assms(1,2) map_raising_total [OF assms(3)]
  by (simp add: get_trained_models_ids_def get_status_def perform_json_def)

lemma ids_of_session:
  assumes "c hist (status_request t) = Inr (JObj st)"
    and "map_of st ''fullModelIds'' = Some (JList fmis)"
    and "\<forall>x\<in>set fmis. \<exists>b. in_session sid x = Inr b"
    and "list_all2 (\<lambda>x i. py_getitem x (JStr ''id'') = Inr i)
           (filter (\<lambda>x. in_session sid x = Inr True) fmis) ids"
  shows "get_trained_models_ids c t (Some sid) None hist =
           (Inr ids, hist @ [Sent (status_request t)])"
  using assms(1,2) filter_raising_total [OF assms(3)] map_raising_total [OF assms(4)]
  by (simp add: get_trained_models_ids_def get_status_def perform_json_def)

lemma algorithm_filter_never_returns:
  "fst (get_trained_models_ids c t session_id (Some a) hist) \<noteq> Inr ids"
  by (auto simp add: get_trained_models_ids_def py_iteritems_def
      split: prod.splits sum.splits option.splits)

text \<open>
  Claim C9 against the code. With an algorithm the call never returns a list of ids:
  after the status and the snippets are fetched, \<^verbatim>\<open>iteritems()\<close> raises
  \<^verbatim>\<open>AttributeError\<close>, with or without a session id. The same task filtered by
  session only returns the ids of the session.
\<close>

theorem algorithm_filter_raises:
  "get_trained_models_ids
     (\<lambda>hist req.
        if hist = [] then
          Inr (JObj [(''fullModelIds'', JList
            [JObj [(''id'', JStr ''A-1''), (''fullModelId'', JObj [(''sessionId'', JStr ''s1'')])],
             JObj [(''id'', JStr ''A-2''), (''fullModelId'', JObj [(''sessionId'', JStr ''s2'')])],
             JObj [(''id'', JStr ''A-3''), (''fullModelId'', JObj [(''sessionId'', JStr ''s1'')])]])])
        else
          Inr (JObj [(''A-1'', JObj [(''algorithm'', JStr ''XGBOOST'')]),
                     (''A-3'', JObj [(''algorithm'', JStr ''RIDGE'')])]))
     \<lparr>project_key = ''P'', analysis_id = ''a1'', mltask_id = ''t1''\<rparr>
     (Some ''s1'') (Some ''XGBOOST'') [] =
   (Inl AttributeError,
    [Sent (Request ''GET'' ''/projects/P/models/lab/a1/t1/status'' None),
     Sent (Request ''GET'' ''/projects/P/models/lab/a1/t1/models-snippets''
             (Some (JObj [(''modelsIds'', JList [JStr ''A-1'', JStr ''A-3''])])))]) \<and>
   get_trained_models_ids
     (\<lambda>hist req.
        if hist = [] then
          Inr (JObj [(''fullModelIds'', JList
            [JObj [(''id'', JStr ''A-1''), (''fullModelId'', JObj [(''sessionId'', JStr ''s1'')])],
             JObj [(''id'', JStr ''A-2''), (''fullModelId'', JObj [(''sessionId'', JStr ''s2'')])],
             JObj [(''id'', JStr ''A-3''), (''fullModelId'', JObj [(''sessionId'', JStr ''s1'')])]])])
        else
          Inr (JObj [(''A-1'', JObj [(''algorithm'', JStr ''XGBOOST'')]),
                     (''A-2'', JObj [(''algorithm'', JStr ''XGBOOST'')]),
                     (''A-3'', JObj [(''algorithm'', JStr ''RIDGE'')])]))
     \<lparr>project_key = ''P'', analysis_id = ''a1'', mltask_id = ''t1''\<rparr>
     None (Some ''XGBOOST'') [] =
   (Inl AttributeError,
    [Sent (Request ''GET'' ''/projects/P/models/lab/a1/t1/status'' None),
     Sent (Request ''GET'' ''/projects/P/models/lab/a1/t1/models-snippets''
             (Some (JObj [(''modelsIds'', JList [JStr ''A-1'', JStr ''A-2'', JStr ''A-3''])])))]) \<and>
   get_trained_models_ids
     (\<lambda>hist req.
        if hist = [] then
          Inr (JObj [(''fullModelIds'', JList
            [JObj [(''id'', JStr ''A-1''), (''fullModelId'', JObj [(''sessionId'', JStr ''s1'')])],
             JObj [(''id'', JStr ''A-2''), (''fullModelId'', JObj [(''sessionId'', JStr ''s2'')])],
             JObj [(''id'', JStr ''A-3''), (''fullModelId'', JObj [(''sessionId'', JStr ''s1'')])]])])
        else
          Inr (JObj [(''A-1'', JObj [(''algorithm'', JStr ''XGBOOST'')]),
                     (''A-3'', JObj [(''algorithm'', JStr ''RIDGE'')])]))
     \<lparr>project_key = ''P'', analysis_id = ''a1'', mltask_id = ''t1''\<rparr>
     (Some ''s1'') None [] =
   (Inr [JStr ''A-1'', JStr ''A-3''],
    [Sent (Request ''GET'' ''/projects/P/models/lab/a1/t1/status'' None)]) \<and>
   fst (get_trained_models_ids c t session_id (Some a) hist) \<noteq> Inr ids"
  by (simp add: algorithm_filter_never_returns)
     (simp add: get_trained_models_ids_def get_status_def perform_json_def
      get_trained_model_snippet_def py_iteritems_def in_session_def status_request_def
      snippets_request_def lab_url_def)

end
